theory Spec2Isabelle
  imports Main "HOL-Library.Word"
begin

section \<open>C strings and libc helpers\<close>

text \<open>
  A \<open>const char*\<close> argument is a \<open>string option\<close>: \<open>None\<close> is the null pointer,
  \<open>Some s\<close> the bytes found at the address. A C string ends at its first NUL, so the
  text a pointer denotes is \<open>c_str s\<close>.
\<close>

definition NUL :: char where
  "NUL = CHR 0x00"

definition c_str :: "string \<Rightarrow> string" where
  "c_str s = takeWhile (\<lambda>c. c \<noteq> NUL) s"

text \<open>
  \<open>strncpy(dest, src, n)\<close>: exactly \<open>n\<close> bytes of \<open>dest\<close> are written, the text of
  \<open>src\<close> cut to \<open>n\<close> bytes and padded with NULs when it is shorter.
\<close>

definition strncpy :: "string \<Rightarrow> string \<Rightarrow> nat \<Rightarrow> string" where
  "strncpy dest src n =
     take n (c_str src @ replicate (n - length (c_str src)) NUL) @ drop n dest"

text \<open>
  \<open>vsnprintf(buf, sz, fmt, ap)\<close> with the expansion of the format already computed
  (\<open>text\<close>): at most \<open>sz - 1\<close> bytes of the expansion are written, then a NUL; nothing
  is written when \<open>sz\<close> is 0.
\<close>

definition vsnprintf :: "string \<Rightarrow> nat \<Rightarrow> string \<Rightarrow> string" where
  "vsnprintf buf sz text =
     (if sz = 0 then buf
      else take (sz - 1) (c_str text) @ [NUL]
             @ drop (Suc (min (length (c_str text)) (sz - 1))) buf)"

text \<open>
  The expansion of a format whose only conversions are \<open>%s\<close> and \<open>%%\<close>, the
  ones this repository's SQL templates use: each \<open>%s\<close> takes the next argument.
\<close>

fun format_expand :: "string \<Rightarrow> string list \<Rightarrow> string" where
  "format_expand [] args = []"
| "format_expand [c] args = [c]"
| "format_expand (c # d # rest) args =
     (if c = CHR ''%'' \<and> d = CHR ''s'' then
        (case args of
           [] \<Rightarrow> format_expand rest []
         | a # as \<Rightarrow> c_str a @ format_expand rest as)
      else if c = CHR ''%'' \<and> d = CHR ''%'' then CHR ''%'' # format_expand rest args
      else c # format_expand (d # rest) args)"

section \<open>Error model (error.hpp)\<close>

datatype ErrorCode =
  kOk | kError | kNotOpen | kBusy | kNotFound | kConstraint | kMismatch
  | kMisuse | kRange | kNullParam | kIoError | kFull

definition kMaxMessageLen :: nat where
  "kMaxMessageLen = 256"

text \<open>\<open>message\<close> is the \<open>char[kMaxMessageLen]\<close> buffer, all of its bytes.\<close>

record Error =
  code :: ErrorCode
  message :: string

definition Error_default :: Error where
  "Error_default = \<lparr>code = kOk, message = replicate kMaxMessageLen NUL\<rparr>"

definition ok :: "Error \<Rightarrow> bool" where
  "ok e = (code e = kOk)"

definition Set :: "Error \<Rightarrow> ErrorCode \<Rightarrow> string option \<Rightarrow> Error" where
  "Set e c msg =
     (case msg of
        Some m \<Rightarrow>
          e\<lparr>code := c,
            message := (strncpy (message e) m (kMaxMessageLen - 1))[kMaxMessageLen - 1 := NUL]\<rparr>
      | None \<Rightarrow> e\<lparr>code := c, message := (message e)[0 := NUL]\<rparr>)"

text \<open>
  \<open>SetFormat(c, fmt, ...)\<close>: \<open>expand\<close> is what the C library makes of the format and
  the variadic arguments, any function of the format text.
\<close>

definition SetFormat :: "Error \<Rightarrow> ErrorCode \<Rightarrow> string option \<Rightarrow> (string \<Rightarrow> string) \<Rightarrow> Error" where
  "SetFormat e c fmt expand =
     (case fmt of
        Some f \<Rightarrow> e\<lparr>code := c, message := vsnprintf (message e) kMaxMessageLen (expand (c_str f))\<rparr>
      | None \<Rightarrow> e\<lparr>code := c, message := (message e)[0 := NUL]\<rparr>)"

definition Clear :: "Error \<Rightarrow> Error" where
  "Clear e = e\<lparr>code := kOk, message := (message e)[0 := NUL]\<rparr>"

definition Error_Ok :: Error where
  "Error_Ok = Error_default"

definition Make :: "ErrorCode \<Rightarrow> string option \<Rightarrow> Error" where
  "Make c msg = Set Error_default c msg"

text \<open>
  Out-parameters \<open>Error* out_error\<close> are \<open>Error option\<close>; \<open>None\<close> is the null
  pointer. \<open>report\<close> is the statement
  \<open>if (out_error != nullptr) { out_error->Set(c, msg); }\<close>.
\<close>

definition report :: "Error option \<Rightarrow> ErrorCode \<Rightarrow> string option \<Rightarrow> Error option" where
  "report out_error c msg = map_option (\<lambda>e. Set e c msg) out_error"

section \<open>Machine values shared by both backends\<close>

text \<open>
  \<open>int32_t\<close> data values are \<open>32 word\<close> read with \<open>sint\<close>, \<open>uint32_t\<close> and
  \<open>uint64_t\<close> counters are words read with \<open>unat\<close>; column and parameter indices
  (\<open>int32_t\<close>, only compared and used as subscripts) are \<open>int\<close>. A \<open>double\<close> is
  carried as its 64 bits: the code only stores and returns it.
\<close>

datatype double = DoubleBits "64 word"

text \<open>
  The name search shared by every \<open>FieldIndex\<close>:
  \<open>for (i = 0; i < n; ++i) if (name_at(i) != nullptr && strcmp(name, name_at(i)) == 0) return i;
  return -1;\<close>
\<close>

function find_name :: "(int \<Rightarrow> string option) \<Rightarrow> int \<Rightarrow> string \<Rightarrow> int \<Rightarrow> int" where
  "find_name name_at n name i =
     (if i < n then
        (case name_at i of
           Some col_name \<Rightarrow>
             if c_str name = c_str col_name then i else find_name name_at n name (i + 1)
         | None \<Rightarrow> find_name name_at n name (i + 1))
      else - 1)"
  by pat_completeness auto
termination
  by (relation "measure (\<lambda>(name_at, n, name, i). nat (n - i))") auto

section \<open>The embedded engine's C API, as far as the wrappers call it\<close>

text \<open>
  The engine is a collaborator outside the repository. A native statement is the state
  its calls read and write: the column names, the outcomes its coming \<open>sqlite3_step\<close>
  calls will report (any list: the engine decides), the row the last step made current,
  the parameter slots, and the result of the last step. What each \<open>sqlite3_column_*\<close>
  accessor reports for a column of the current row is given per column.
\<close>

definition SQLITE_OK :: int where "SQLITE_OK = 0"
definition SQLITE_RANGE :: int where "SQLITE_RANGE = 25"
definition SQLITE_ROW :: int where "SQLITE_ROW = 100"
definition SQLITE_DONE :: int where "SQLITE_DONE = 101"
definition SQLITE_NULL :: int where "SQLITE_NULL = 5"

record sqlite3_column =
  column_type :: int
  column_int :: "32 word"
  column_int64 :: "64 word"
  column_double :: double
  column_text :: "string option"

datatype step_outcome = StepRow "sqlite3_column list" | StepDone | StepFail int

datatype bound_value =
  BoundNull | BoundInt "32 word" | BoundInt64 "64 word" | BoundDouble double
  | BoundText "string option" | BoundBlob "8 word list option" int

record sqlite3_stmt =
  column_names :: "string option list"
  upcoming :: "step_outcome list"
  current_row :: "sqlite3_column list"
  bindings :: "bound_value option list"
  last_step :: int

definition sqlite3_step :: "sqlite3_stmt \<Rightarrow> int \<times> sqlite3_stmt" where
  "sqlite3_step s =
     (case upcoming s of
        [] \<Rightarrow> (SQLITE_DONE, s\<lparr>current_row := [], last_step := SQLITE_DONE\<rparr>)
      | StepRow r # rest \<Rightarrow>
          (SQLITE_ROW, s\<lparr>upcoming := rest, current_row := r, last_step := SQLITE_ROW\<rparr>)
      | StepDone # rest \<Rightarrow>
          (SQLITE_DONE, s\<lparr>upcoming := rest, current_row := [], last_step := SQLITE_DONE\<rparr>)
      | StepFail rc # rest \<Rightarrow>
          (rc, s\<lparr>upcoming := rest, current_row := [], last_step := rc\<rparr>))"

text \<open>
  \<open>sqlite3_reset\<close> rewinds the statement and reports the failure of the last step, if
  any. As the engine documents, it leaves the parameter bindings as they are (clearing
  them is \<open>sqlite3_clear_bindings\<close>, which no wrapper calls).
\<close>

definition sqlite3_reset :: "sqlite3_stmt \<Rightarrow> int \<times> sqlite3_stmt" where
  "sqlite3_reset s =
     ((if last_step s = SQLITE_ROW \<or> last_step s = SQLITE_DONE then SQLITE_OK
       else last_step s),
      s\<lparr>current_row := [], last_step := SQLITE_OK\<rparr>)"

text \<open>
  The \<open>sqlite3_bind_*\<close> family: parameter positions are 1-based; a position outside
  the statement's parameters is refused with \<open>SQLITE_RANGE\<close> and binds nothing.
\<close>

definition sqlite3_bind :: "sqlite3_stmt \<Rightarrow> int \<Rightarrow> bound_value \<Rightarrow> int \<times> sqlite3_stmt" where
  "sqlite3_bind s param v =
     (if 1 \<le> param \<and> param \<le> int (length (bindings s))
      then (SQLITE_OK, s\<lparr>bindings := (bindings s)[nat (param - 1) := Some v]\<rparr>)
      else (SQLITE_RANGE, s))"

definition sqlite3_column_count :: "sqlite3_stmt \<Rightarrow> int" where
  "sqlite3_column_count s = int (length (column_names s))"

definition sqlite3_column_name :: "sqlite3_stmt \<Rightarrow> int \<Rightarrow> string option" where
  "sqlite3_column_name s i =
     (if 0 \<le> i \<and> i < int (length (column_names s)) then column_names s ! nat i else None)"

text \<open>A column that the current row does not have reads as NULL, 0 or a null pointer.\<close>

definition sqlite3_column_type :: "sqlite3_stmt \<Rightarrow> int \<Rightarrow> int" where
  "sqlite3_column_type s i =
     (if 0 \<le> i \<and> i < int (length (current_row s))
      then column_type (current_row s ! nat i) else SQLITE_NULL)"

definition sqlite3_column_int :: "sqlite3_stmt \<Rightarrow> int \<Rightarrow> 32 word" where
  "sqlite3_column_int s i =
     (if 0 \<le> i \<and> i < int (length (current_row s))
      then column_int (current_row s ! nat i) else 0)"

definition sqlite3_column_int64 :: "sqlite3_stmt \<Rightarrow> int \<Rightarrow> 64 word" where
  "sqlite3_column_int64 s i =
     (if 0 \<le> i \<and> i < int (length (current_row s))
      then column_int64 (current_row s ! nat i) else 0)"

definition sqlite3_column_double :: "sqlite3_stmt \<Rightarrow> int \<Rightarrow> double" where
  "sqlite3_column_double s i =
     (if 0 \<le> i \<and> i < int (length (current_row s))
      then column_double (current_row s ! nat i) else DoubleBits 0)"

definition sqlite3_column_text :: "sqlite3_stmt \<Rightarrow> int \<Rightarrow> string option" where
  "sqlite3_column_text s i =
     (if 0 \<le> i \<and> i < int (length (current_row s))
      then column_text (current_row s ! nat i) else None)"

text \<open>
  A connection handle: what \<open>sqlite3_prepare_v2\<close> answers for an SQL text (a result
  code and the compiled statement, if any), and what \<open>sqlite3_errmsg\<close> and
  \<open>sqlite3_changes\<close> report.
\<close>

record sqlite3 =
  prepare_v2 :: "string \<Rightarrow> int \<times> sqlite3_stmt option"
  errmsg :: string
  changes :: "32 word"

section \<open>Sqlite3Query (sqlite3_query.hpp)\<close>

text \<open>
  A class member \<open>m_\<close> is the record field \<open>m\<close> with the class's prefix
  (\<open>sq\<close> here): \<open>stmt_\<close> is \<open>sq_stmt\<close>. A pointer member is an option,
  \<open>None\<close> the null pointer, holding the state of the native object it owns.
\<close>

record Sqlite3Query =
  sq_db :: "sqlite3 option"
  sq_stmt :: "sqlite3_stmt option"
  sq_eof :: bool
  sq_num_fields :: int

text \<open>The default-constructed cursor, \<open>Sqlite3Query{}\<close>.\<close>

definition Sqlite3Query_default :: Sqlite3Query where
  "Sqlite3Query_default = \<lparr>sq_db = None, sq_stmt = None, sq_eof = True, sq_num_fields = 0\<rparr>"

text \<open>The private constructor \<open>Sqlite3Query(db, stmt, eof)\<close>.\<close>

definition Sqlite3Query_ctor :: "sqlite3 option \<Rightarrow> sqlite3_stmt option \<Rightarrow> bool \<Rightarrow> Sqlite3Query" where
  "Sqlite3Query_ctor db stmt eof =
     \<lparr>sq_db = db, sq_stmt = stmt, sq_eof = eof,
      sq_num_fields = (case stmt of None \<Rightarrow> 0 | Some s \<Rightarrow> sqlite3_column_count s)\<rparr>"

definition Sqlite3Query_Finalize :: "Sqlite3Query \<Rightarrow> Sqlite3Query" where
  "Sqlite3Query_Finalize q = q\<lparr>sq_stmt := None, sq_eof := True, sq_num_fields := 0\<rparr>"

text \<open>
  Moves return the pair (destination, source afterwards). A move assignment is between
  two distinct objects, the case \<open>this != &other\<close>.
\<close>

definition Sqlite3Query_move :: "Sqlite3Query \<Rightarrow> Sqlite3Query \<times> Sqlite3Query" where
  "Sqlite3Query_move other =
     (\<lparr>sq_db = sq_db other, sq_stmt = sq_stmt other, sq_eof = sq_eof other,
       sq_num_fields = sq_num_fields other\<rparr>,
      other\<lparr>sq_db := None, sq_stmt := None, sq_eof := True, sq_num_fields := 0\<rparr>)"

definition Sqlite3Query_move_assign :: "Sqlite3Query \<Rightarrow> Sqlite3Query \<Rightarrow> Sqlite3Query \<times> Sqlite3Query" where
  "Sqlite3Query_move_assign this other =
     ((Sqlite3Query_Finalize this)
        \<lparr>sq_db := sq_db other, sq_stmt := sq_stmt other, sq_eof := sq_eof other,
         sq_num_fields := sq_num_fields other\<rparr>,
      other\<lparr>sq_db := None, sq_stmt := None, sq_eof := True, sq_num_fields := 0\<rparr>)"

definition Sqlite3Query_NumFields :: "Sqlite3Query \<Rightarrow> int" where
  "Sqlite3Query_NumFields q = sq_num_fields q"

definition Sqlite3Query_FieldIndex :: "Sqlite3Query \<Rightarrow> string option \<Rightarrow> int" where
  "Sqlite3Query_FieldIndex q name =
     (case (sq_stmt q, name) of
        (Some s, Some n) \<Rightarrow> find_name (sqlite3_column_name s) (sq_num_fields q) n 0
      | _ \<Rightarrow> - 1)"

definition Sqlite3Query_FieldValue :: "Sqlite3Query \<Rightarrow> int \<Rightarrow> string option" where
  "Sqlite3Query_FieldValue q col =
     (case sq_stmt q of
        None \<Rightarrow> None
      | Some s \<Rightarrow> if col < 0 \<or> col \<ge> sq_num_fields q then None else sqlite3_column_text s col)"

definition Sqlite3Query_FieldIsNull :: "Sqlite3Query \<Rightarrow> int \<Rightarrow> bool" where
  "Sqlite3Query_FieldIsNull q col =
     (case sq_stmt q of
        None \<Rightarrow> True
      | Some s \<Rightarrow>
          if col < 0 \<or> col \<ge> sq_num_fields q then True
          else sqlite3_column_type s col = SQLITE_NULL)"

text \<open>
  The typed accessors. After \<open>FieldIsNull\<close> answered false the handle is not null, so
  the \<open>None\<close> branch of the native read is never taken.
\<close>

definition Sqlite3Query_GetInt :: "Sqlite3Query \<Rightarrow> int \<Rightarrow> 32 word \<Rightarrow> 32 word" where
  "Sqlite3Query_GetInt q col null_value =
     (if Sqlite3Query_FieldIsNull q col then null_value
      else case sq_stmt q of Some s \<Rightarrow> sqlite3_column_int s col | None \<Rightarrow> null_value)"

definition Sqlite3Query_GetInt_name :: "Sqlite3Query \<Rightarrow> string option \<Rightarrow> 32 word \<Rightarrow> 32 word" where
  "Sqlite3Query_GetInt_name q name null_value =
     (let idx = Sqlite3Query_FieldIndex q name
      in if idx \<ge> 0 then Sqlite3Query_GetInt q idx null_value else null_value)"

definition Sqlite3Query_GetInt64 :: "Sqlite3Query \<Rightarrow> int \<Rightarrow> 64 word \<Rightarrow> 64 word" where
  "Sqlite3Query_GetInt64 q col null_value =
     (if Sqlite3Query_FieldIsNull q col then null_value
      else case sq_stmt q of Some s \<Rightarrow> sqlite3_column_int64 s col | None \<Rightarrow> null_value)"

definition Sqlite3Query_GetDouble :: "Sqlite3Query \<Rightarrow> int \<Rightarrow> double \<Rightarrow> double" where
  "Sqlite3Query_GetDouble q col null_value =
     (if Sqlite3Query_FieldIsNull q col then null_value
      else case sq_stmt q of Some s \<Rightarrow> sqlite3_column_double s col | None \<Rightarrow> null_value)"

definition Sqlite3Query_GetDouble_name :: "Sqlite3Query \<Rightarrow> string option \<Rightarrow> double \<Rightarrow> double" where
  "Sqlite3Query_GetDouble_name q name null_value =
     (let idx = Sqlite3Query_FieldIndex q name
      in if idx \<ge> 0 then Sqlite3Query_GetDouble q idx null_value else null_value)"

definition Sqlite3Query_GetString :: "Sqlite3Query \<Rightarrow> int \<Rightarrow> string option \<Rightarrow> string option" where
  "Sqlite3Query_GetString q col null_value =
     (if Sqlite3Query_FieldIsNull q col then null_value
      else case Sqlite3Query_FieldValue q col of Some val \<Rightarrow> Some val | None \<Rightarrow> null_value)"

definition Sqlite3Query_GetString_name :: "Sqlite3Query \<Rightarrow> string option \<Rightarrow> string option \<Rightarrow> string option" where
  "Sqlite3Query_GetString_name q name null_value =
     (let idx = Sqlite3Query_FieldIndex q name
      in if idx \<ge> 0 then Sqlite3Query_GetString q idx null_value else null_value)"

definition Sqlite3Query_Eof :: "Sqlite3Query \<Rightarrow> bool" where
  "Sqlite3Query_Eof q = sq_eof q"

definition Sqlite3Query_NextRow :: "Sqlite3Query \<Rightarrow> Sqlite3Query" where
  "Sqlite3Query_NextRow q =
     (case sq_stmt q of
        None \<Rightarrow> q
      | Some s \<Rightarrow>
          (let (rc, s') = sqlite3_step s in
           if rc = SQLITE_DONE then q\<lparr>sq_stmt := Some s', sq_eof := True\<rparr>
           else if rc \<noteq> SQLITE_ROW then q\<lparr>sq_stmt := Some s', sq_eof := True\<rparr>
           else q\<lparr>sq_stmt := Some s'\<rparr>))"

section \<open>Sqlite3Statement (sqlite3_statement.hpp)\<close>

record Sqlite3Statement =
  ss_db :: "sqlite3 option"
  ss_stmt :: "sqlite3_stmt option"

definition Sqlite3Statement_default :: Sqlite3Statement where
  "Sqlite3Statement_default = \<lparr>ss_db = None, ss_stmt = None\<rparr>"

definition Sqlite3Statement_ctor :: "sqlite3 option \<Rightarrow> sqlite3_stmt option \<Rightarrow> Sqlite3Statement" where
  "Sqlite3Statement_ctor db stmt = \<lparr>ss_db = db, ss_stmt = stmt\<rparr>"

definition Sqlite3Statement_Finalize :: "Sqlite3Statement \<Rightarrow> Sqlite3Statement" where
  "Sqlite3Statement_Finalize s = s\<lparr>ss_stmt := None\<rparr>"

definition Sqlite3Statement_Valid :: "Sqlite3Statement \<Rightarrow> bool" where
  "Sqlite3Statement_Valid s = (ss_stmt s \<noteq> None)"

definition Sqlite3Statement_move :: "Sqlite3Statement \<Rightarrow> Sqlite3Statement \<times> Sqlite3Statement" where
  "Sqlite3Statement_move other =
     (\<lparr>ss_db = ss_db other, ss_stmt = ss_stmt other\<rparr>,
      other\<lparr>ss_db := None, ss_stmt := None\<rparr>)"

definition Sqlite3Statement_move_assign ::
  "Sqlite3Statement \<Rightarrow> Sqlite3Statement \<Rightarrow> Sqlite3Statement \<times> Sqlite3Statement" where
  "Sqlite3Statement_move_assign this other =
     ((Sqlite3Statement_Finalize this)\<lparr>ss_db := ss_db other, ss_stmt := ss_stmt other\<rparr>,
      other\<lparr>ss_db := None, ss_stmt := None\<rparr>)"

text \<open>
  \<open>ExecDml\<close> returns the affected row count, the statement afterwards and the
  out-parameter afterwards.
\<close>

definition Sqlite3Statement_ExecDml ::
  "Sqlite3Statement \<Rightarrow> Error option \<Rightarrow> 32 word \<times> Sqlite3Statement \<times> Error option" where
  "Sqlite3Statement_ExecDml s out_error =
     (case (ss_db s, ss_stmt s) of
        (Some db, Some stmt) \<Rightarrow>
          (let (rc, stmt1) = sqlite3_step stmt in
           if rc = SQLITE_DONE then
             (let (reset_rc, stmt2) = sqlite3_reset stmt1 in
              (changes db, s\<lparr>ss_stmt := Some stmt2\<rparr>,
               if reset_rc \<noteq> SQLITE_OK then report out_error kError (Some (errmsg db))
               else out_error))
           else
             (let (reset_rc, stmt2) = sqlite3_reset stmt1 in
              (- 1, s\<lparr>ss_stmt := Some stmt2\<rparr>, report out_error kError (Some (errmsg db)))))
      | _ \<Rightarrow> (- 1, s, report out_error kMisuse (Some ''Statement not initialized'')))"

definition Sqlite3Statement_ExecQuery ::
  "Sqlite3Statement \<Rightarrow> Error option \<Rightarrow> Sqlite3Query \<times> Sqlite3Statement \<times> Error option" where
  "Sqlite3Statement_ExecQuery s out_error =
     (case (ss_db s, ss_stmt s) of
        (Some db, Some stmt) \<Rightarrow>
          (let (rc, stmt1) = sqlite3_step stmt in
           if rc = SQLITE_DONE then
             (Sqlite3Query_ctor (Some db) (Some stmt1) True, s\<lparr>ss_stmt := None\<rparr>, out_error)
           else if rc = SQLITE_ROW then
             (Sqlite3Query_ctor (Some db) (Some stmt1) False, s\<lparr>ss_stmt := None\<rparr>, out_error)
           else
             (let (reset_rc, stmt2) = sqlite3_reset stmt1 in
              (Sqlite3Query_default, s\<lparr>ss_stmt := Some stmt2\<rparr>,
               report out_error kError (Some (errmsg db)))))
      | _ \<Rightarrow> (Sqlite3Query_default, s, report out_error kMisuse (Some ''Statement not initialized'')))"

text \<open>
  The six bind forms differ in the native call and in the failure message only; each
  is \<open>bind_call\<close> at its value and message.
\<close>

definition Sqlite3Statement_bind_call ::
  "Sqlite3Statement \<Rightarrow> int \<Rightarrow> bound_value \<Rightarrow> string \<Rightarrow> Error \<times> Sqlite3Statement" where
  "Sqlite3Statement_bind_call s param v fail_msg =
     (case ss_stmt s of
        None \<Rightarrow> (Make kMisuse (Some ''Statement not initialized''), s)
      | Some stmt \<Rightarrow>
          (let (rc, stmt1) = sqlite3_bind stmt param v in
           if rc \<noteq> SQLITE_OK then (Make kError (Some fail_msg), s\<lparr>ss_stmt := Some stmt1\<rparr>)
           else (Error_Ok, s\<lparr>ss_stmt := Some stmt1\<rparr>)))"

definition Sqlite3Statement_Bind_text :: "Sqlite3Statement \<Rightarrow> int \<Rightarrow> string option \<Rightarrow> Error \<times> Sqlite3Statement" where
  "Sqlite3Statement_Bind_text s param val =
     Sqlite3Statement_bind_call s param (BoundText val) ''bind text failed''"

definition Sqlite3Statement_Bind_int :: "Sqlite3Statement \<Rightarrow> int \<Rightarrow> 32 word \<Rightarrow> Error \<times> Sqlite3Statement" where
  "Sqlite3Statement_Bind_int s param val =
     Sqlite3Statement_bind_call s param (BoundInt val) ''bind int failed''"

definition Sqlite3Statement_Bind_int64 :: "Sqlite3Statement \<Rightarrow> int \<Rightarrow> 64 word \<Rightarrow> Error \<times> Sqlite3Statement" where
  "Sqlite3Statement_Bind_int64 s param val =
     Sqlite3Statement_bind_call s param (BoundInt64 val) ''bind int64 failed''"

definition Sqlite3Statement_Bind_double :: "Sqlite3Statement \<Rightarrow> int \<Rightarrow> double \<Rightarrow> Error \<times> Sqlite3Statement" where
  "Sqlite3Statement_Bind_double s param val =
     Sqlite3Statement_bind_call s param (BoundDouble val) ''bind double failed''"

definition Sqlite3Statement_Bind_blob ::
  "Sqlite3Statement \<Rightarrow> int \<Rightarrow> 8 word list option \<Rightarrow> int \<Rightarrow> Error \<times> Sqlite3Statement" where
  "Sqlite3Statement_Bind_blob s param blob len =
     Sqlite3Statement_bind_call s param (BoundBlob blob len) ''bind blob failed''"

definition Sqlite3Statement_BindNull :: "Sqlite3Statement \<Rightarrow> int \<Rightarrow> Error \<times> Sqlite3Statement" where
  "Sqlite3Statement_BindNull s param =
     Sqlite3Statement_bind_call s param BoundNull ''bind null failed''"


section \<open>Sqlite3Db (sqlite3_db.hpp)\<close>

record Sqlite3Db =
  sd_db :: "sqlite3 option"

definition Sqlite3Db_default :: Sqlite3Db where
  "Sqlite3Db_default = \<lparr>sd_db = None\<rparr>"

definition Sqlite3Db_Close :: "Sqlite3Db \<Rightarrow> Sqlite3Db" where
  "Sqlite3Db_Close d = d\<lparr>sd_db := None\<rparr>"

definition Sqlite3Db_IsOpen :: "Sqlite3Db \<Rightarrow> bool" where
  "Sqlite3Db_IsOpen d = (sd_db d \<noteq> None)"

definition Sqlite3Db_move :: "Sqlite3Db \<Rightarrow> Sqlite3Db \<times> Sqlite3Db" where
  "Sqlite3Db_move other = (\<lparr>sd_db = sd_db other\<rparr>, other\<lparr>sd_db := None\<rparr>)"

definition Sqlite3Db_move_assign :: "Sqlite3Db \<Rightarrow> Sqlite3Db \<Rightarrow> Sqlite3Db \<times> Sqlite3Db" where
  "Sqlite3Db_move_assign this other =
     ((Sqlite3Db_Close this)\<lparr>sd_db := sd_db other\<rparr>, other\<lparr>sd_db := None\<rparr>)"

text \<open>The private \<open>Compile\<close>, called with an open connection and a non-null text.\<close>

definition Sqlite3Db_Compile ::
  "sqlite3 \<Rightarrow> string \<Rightarrow> Error option \<Rightarrow> sqlite3_stmt option \<times> Error option" where
  "Sqlite3Db_Compile db sql out_error =
     (let (rc, stmt) = prepare_v2 db (c_str sql) in
      if rc \<noteq> SQLITE_OK then (None, report out_error kError (Some (errmsg db)))
      else (stmt, out_error))"

definition Sqlite3Db_ExecQuery ::
  "Sqlite3Db \<Rightarrow> string option \<Rightarrow> Error option \<Rightarrow> Sqlite3Query \<times> Error option" where
  "Sqlite3Db_ExecQuery d sql out_error =
     (case sd_db d of
        None \<Rightarrow> (Sqlite3Query_default, report out_error kNotOpen (Some ''Database not open''))
      | Some db \<Rightarrow>
          (case sql of
             None \<Rightarrow> (Sqlite3Query_default, report out_error kNullParam (Some ''sql is null''))
           | Some text \<Rightarrow>
               (case Sqlite3Db_Compile db text out_error of
                  (None, err) \<Rightarrow> (Sqlite3Query_default, err)
                | (Some stmt, err) \<Rightarrow>
                    (let (rc, stmt1) = sqlite3_step stmt in
                     if rc = SQLITE_DONE then (Sqlite3Query_ctor (Some db) (Some stmt1) True, err)
                     else if rc = SQLITE_ROW then
                       (Sqlite3Query_ctor (Some db) (Some stmt1) False, err)
                     else (Sqlite3Query_default, report err kError (Some (errmsg db)))))))"

definition Sqlite3Db_ExecScalar ::
  "Sqlite3Db \<Rightarrow> string option \<Rightarrow> 32 word \<Rightarrow> Error option \<Rightarrow> 32 word \<times> Error option" where
  "Sqlite3Db_ExecScalar d sql null_value out_error =
     (let (q, err) = Sqlite3Db_ExecQuery d sql out_error in
      if Sqlite3Query_Eof q \<or> Sqlite3Query_NumFields q < 1 then
        (null_value,
         case err of
           None \<Rightarrow> None
         | Some e \<Rightarrow> if ok e then Some (Set e kError (Some ''Invalid scalar query'')) else Some e)
      else (Sqlite3Query_GetInt q 0 null_value, err))"

text \<open>
  The text \<open>TableExists\<close> prints into its \<open>char sql[256]\<close> with \<open>snprintf\<close>. The
  buffer starts uninitialised; the text written does not depend on what it held.
\<close>

definition Sqlite3Db_TableExists_sql :: "string \<Rightarrow> string" where
  "Sqlite3Db_TableExists_sql table =
     vsnprintf (replicate 256 NUL) 256
       (format_expand
          (''SELECT count(*) FROM sqlite_master WHERE type='table' AND name='%s'' @ [CHR 0x27])
          [table])"

definition Sqlite3Db_TableExists :: "Sqlite3Db \<Rightarrow> string option \<Rightarrow> bool" where
  "Sqlite3Db_TableExists d table =
     (case (sd_db d, table) of
        (Some db, Some t) \<Rightarrow>
          0 < sint (fst (Sqlite3Db_ExecScalar d (Some (Sqlite3Db_TableExists_sql t)) 0 None))
      | _ \<Rightarrow> False)"

section \<open>Sqlite3ResultSet (sqlite3_result_set.hpp)\<close>

text \<open>
  \<open>results_\<close> is the \<open>char**\<close> table of \<open>sqlite3_get_table\<close>: an array of nullable
  strings, the column names first and the cells after them, row by row.
\<close>

record Sqlite3ResultSet =
  sr_results :: "string option list option"
  sr_num_rows :: "32 word"
  sr_num_cols :: int
  sr_current_row :: "32 word"

definition Sqlite3ResultSet_default :: Sqlite3ResultSet where
  "Sqlite3ResultSet_default =
     \<lparr>sr_results = None, sr_num_rows = 0, sr_num_cols = 0, sr_current_row = 0\<rparr>"

definition Sqlite3ResultSet_ctor ::
  "string option list option \<Rightarrow> 32 word \<Rightarrow> int \<Rightarrow> Sqlite3ResultSet" where
  "Sqlite3ResultSet_ctor results rows cols =
     \<lparr>sr_results = results, sr_num_rows = rows, sr_num_cols = cols, sr_current_row = 0\<rparr>"

definition Sqlite3ResultSet_Finalize :: "Sqlite3ResultSet \<Rightarrow> Sqlite3ResultSet" where
  "Sqlite3ResultSet_Finalize r =
     r\<lparr>sr_results := None, sr_num_rows := 0, sr_num_cols := 0, sr_current_row := 0\<rparr>"

definition Sqlite3ResultSet_move :: "Sqlite3ResultSet \<Rightarrow> Sqlite3ResultSet \<times> Sqlite3ResultSet" where
  "Sqlite3ResultSet_move other =
     (\<lparr>sr_results = sr_results other, sr_num_rows = sr_num_rows other,
       sr_num_cols = sr_num_cols other, sr_current_row = sr_current_row other\<rparr>,
      other\<lparr>sr_results := None, sr_num_rows := 0, sr_num_cols := 0, sr_current_row := 0\<rparr>)"

definition Sqlite3ResultSet_move_assign ::
  "Sqlite3ResultSet \<Rightarrow> Sqlite3ResultSet \<Rightarrow> Sqlite3ResultSet \<times> Sqlite3ResultSet" where
  "Sqlite3ResultSet_move_assign this other =
     ((Sqlite3ResultSet_Finalize this)
        \<lparr>sr_results := sr_results other, sr_num_rows := sr_num_rows other,
         sr_num_cols := sr_num_cols other, sr_current_row := sr_current_row other\<rparr>,
      other\<lparr>sr_results := None, sr_num_rows := 0, sr_num_cols := 0, sr_current_row := 0\<rparr>)"

definition Sqlite3ResultSet_NumFields :: "Sqlite3ResultSet \<Rightarrow> int" where
  "Sqlite3ResultSet_NumFields r = sr_num_cols r"

definition Sqlite3ResultSet_NumRows :: "Sqlite3ResultSet \<Rightarrow> 32 word" where
  "Sqlite3ResultSet_NumRows r = sr_num_rows r"

text \<open>
  \<open>results_[i]\<close>. Reading past the table is undefined in the source; the model reads a
  null pointer there, and the theorems below only read inside the table.
\<close>

definition table_at :: "string option list \<Rightarrow> int \<Rightarrow> string option" where
  "table_at results i = (if 0 \<le> i \<and> i < int (length results) then results ! nat i else None)"

definition Sqlite3ResultSet_FieldIndex :: "Sqlite3ResultSet \<Rightarrow> string option \<Rightarrow> int" where
  "Sqlite3ResultSet_FieldIndex r name =
     (case (sr_results r, name) of
        (Some results, Some n) \<Rightarrow> find_name (table_at results) (sr_num_cols r) n 0
      | _ \<Rightarrow> - 1)"

text \<open>
  \<open>RealIndex\<close>: \<open>static_cast<int32_t>(current_row_) * num_cols_ + num_cols_ + col\<close>.
  All three operands are \<open>int32_t\<close>, so the product and the sums are computed in 32 bits
  and the result is read as a signed number. Where the exact value leaves the range of
  \<open>int32_t\<close> the source's behaviour is undefined; the model wraps around, as two's
  complement hardware does. A wrapped index may be negative, which \<open>FieldValue\<close> answers
  with the null pointer.
\<close>

definition Sqlite3ResultSet_RealIndex :: "Sqlite3ResultSet \<Rightarrow> int \<Rightarrow> int" where
  "Sqlite3ResultSet_RealIndex r col =
     sint (sr_current_row r * word_of_int (sr_num_cols r) + word_of_int (sr_num_cols r)
             + word_of_int col :: 32 word)"

definition Sqlite3ResultSet_FieldValue :: "Sqlite3ResultSet \<Rightarrow> int \<Rightarrow> string option" where
  "Sqlite3ResultSet_FieldValue r col =
     (case sr_results r of
        None \<Rightarrow> None
      | Some results \<Rightarrow>
          if col < 0 \<or> col \<ge> sr_num_cols r then None
          else (let idx = Sqlite3ResultSet_RealIndex r col
                in if idx < 0 then None else table_at results idx))"

definition Sqlite3ResultSet_FieldIsNull :: "Sqlite3ResultSet \<Rightarrow> int \<Rightarrow> bool" where
  "Sqlite3ResultSet_FieldIsNull r col =
     (case sr_results r of
        None \<Rightarrow> True
      | Some results \<Rightarrow>
          if col < 0 \<or> col \<ge> sr_num_cols r then True
          else (let idx = Sqlite3ResultSet_RealIndex r col
                in if idx < 0 then True else table_at results idx = None))"

definition Sqlite3ResultSet_Eof :: "Sqlite3ResultSet \<Rightarrow> bool" where
  "Sqlite3ResultSet_Eof r = (sr_current_row r \<ge> sr_num_rows r)"

definition Sqlite3ResultSet_NextRow :: "Sqlite3ResultSet \<Rightarrow> Sqlite3ResultSet" where
  "Sqlite3ResultSet_NextRow r =
     (if sr_current_row r < sr_num_rows r then r\<lparr>sr_current_row := sr_current_row r + 1\<rparr> else r)"

definition Sqlite3ResultSet_SeekRow :: "Sqlite3ResultSet \<Rightarrow> 32 word \<Rightarrow> Sqlite3ResultSet" where
  "Sqlite3ResultSet_SeekRow r row =
     (if row \<ge> sr_num_rows r \<and> sr_num_rows r > 0 then r\<lparr>sr_current_row := sr_num_rows r - 1\<rparr>
      else r\<lparr>sr_current_row := row\<rparr>)"

definition Sqlite3ResultSet_CurrentRow :: "Sqlite3ResultSet \<Rightarrow> 32 word" where
  "Sqlite3ResultSet_CurrentRow r = sr_current_row r"

section \<open>The client/server engine's C API, as far as the wrappers call it\<close>

text \<open>
  A stored result (\<open>MYSQL_RES\<close> of \<open>mysql_store_result\<close>) is its rows, each an array
  of nullable strings, its column descriptions and the position of its row cursor.
\<close>

record MYSQL_FIELD =
  field_name :: "string option"

record MYSQL_RES =
  res_rows :: "string option list list"
  res_fields :: "MYSQL_FIELD list"
  res_pos :: nat

definition mysql_num_rows :: "MYSQL_RES \<Rightarrow> 64 word" where
  "mysql_num_rows res = of_nat (length (res_rows res))"

definition mysql_num_fields :: "MYSQL_RES \<Rightarrow> nat" where
  "mysql_num_fields res = length (res_fields res)"

definition mysql_fetch_fields :: "MYSQL_RES \<Rightarrow> MYSQL_FIELD list" where
  "mysql_fetch_fields res = res_fields res"

definition mysql_fetch_row :: "MYSQL_RES \<Rightarrow> string option list option \<times> MYSQL_RES" where
  "mysql_fetch_row res =
     (if res_pos res < length (res_rows res)
      then (Some (res_rows res ! res_pos res), res\<lparr>res_pos := Suc (res_pos res)\<rparr>)
      else (None, res))"

definition mysql_fetch_lengths :: "MYSQL_RES \<Rightarrow> nat list option" where
  "mysql_fetch_lengths res =
     (if 0 < res_pos res \<and> res_pos res \<le> length (res_rows res)
      then Some (map (\<lambda>c. case c of None \<Rightarrow> 0 | Some s \<Rightarrow> length s)
                   (res_rows res ! (res_pos res - 1)))
      else None)"

definition mysql_data_seek :: "MYSQL_RES \<Rightarrow> 64 word \<Rightarrow> MYSQL_RES" where
  "mysql_data_seek res offset = res\<lparr>res_pos := unat offset\<rparr>"

text \<open>
  A native prepared statement answers each call the wrapper makes: every field is what
  the call of that name returns (0 is success for the calls that return a status).
\<close>

record MYSQL_STMT =
  mysql_stmt_param_count :: nat
  mysql_stmt_bind_param :: int
  mysql_stmt_execute :: int
  mysql_stmt_result_metadata :: "MYSQL_RES option"
  mysql_stmt_store_result :: int
  mysql_stmt_num_rows :: "64 word"
  mysql_stmt_affected_rows :: "64 word"
  mysql_stmt_reset :: int
  mysql_stmt_error :: string

text \<open>
  What the server answers to \<open>mysql_query\<close> for an SQL text: the status, the result
  \<open>mysql_store_result\<close> then hands out, \<open>mysql_field_count\<close> and \<open>mysql_error\<close>.
\<close>

record mysql_reply =
  reply_status :: int
  reply_result :: "MYSQL_RES option"
  reply_field_count :: nat
  reply_error :: string

record MYSQL =
  mysql_query :: "string \<Rightarrow> mysql_reply"

definition MYSQL_TYPE_LONG :: int where "MYSQL_TYPE_LONG = 3"
definition MYSQL_TYPE_DOUBLE :: int where "MYSQL_TYPE_DOUBLE = 5"
definition MYSQL_TYPE_NULL :: int where "MYSQL_TYPE_NULL = 6"
definition MYSQL_TYPE_LONGLONG :: int where "MYSQL_TYPE_LONGLONG = 8"
definition MYSQL_TYPE_BLOB :: int where "MYSQL_TYPE_BLOB = 252"
definition MYSQL_TYPE_STRING :: int where "MYSQL_TYPE_STRING = 254"

text \<open>
  \<open>buffer\<close> is a pointer: null, the address of a cell of one of the statement's storage
  arrays, or caller memory (its content).
\<close>

datatype bind_buffer =
  NullBuffer | Int32Cell nat | Int64Cell nat | DoubleCell nat
  | CallerText string | CallerBlob "8 word list"

record MYSQL_BIND =
  buffer_type :: int
  buffer :: bind_buffer
  buffer_length :: nat
  is_null_value :: int
  is_unsigned :: int

text \<open>A descriptor after \<open>memset(&b, 0, sizeof(MYSQL_BIND))\<close>.\<close>

definition MYSQL_BIND_zero :: MYSQL_BIND where
  "MYSQL_BIND_zero =
     \<lparr>buffer_type = 0, buffer = NullBuffer, buffer_length = 0, is_null_value = 0, is_unsigned = 0\<rparr>"

section \<open>MariaQuery (maria_query.hpp)\<close>

record MariaQuery =
  mq_res :: "MYSQL_RES option"
  mq_row :: "string option list option"
  mq_lengths :: "nat list option"
  mq_fields :: "MYSQL_FIELD list option"
  mq_eof :: bool
  mq_num_fields :: int
  mq_num_rows :: "64 word"

definition MariaQuery_default :: MariaQuery where
  "MariaQuery_default =
     \<lparr>mq_res = None, mq_row = None, mq_lengths = None, mq_fields = None, mq_eof = True,
      mq_num_fields = 0, mq_num_rows = 0\<rparr>"

text \<open>The private constructor \<open>MariaQuery(res, eof)\<close>.\<close>

definition MariaQuery_ctor :: "MYSQL_RES option \<Rightarrow> bool \<Rightarrow> MariaQuery" where
  "MariaQuery_ctor res eof =
     (case res of
        None \<Rightarrow> MariaQuery_default\<lparr>mq_eof := eof\<rparr>
      | Some r \<Rightarrow>
          (let q = MariaQuery_default
                     \<lparr>mq_res := Some r, mq_eof := eof,
                      mq_num_fields := int (mysql_num_fields r),
                      mq_num_rows := mysql_num_rows r,
                      mq_fields := Some (mysql_fetch_fields r)\<rparr>
           in if \<not> eof then
                (let (row, r1) = mysql_fetch_row r in
                 case row of
                   Some cells \<Rightarrow>
                     q\<lparr>mq_res := Some r1, mq_row := Some cells,
                       mq_lengths := mysql_fetch_lengths r1\<rparr>
                 | None \<Rightarrow> q\<lparr>mq_res := Some r1, mq_eof := True\<rparr>)
              else q))"

definition MariaQuery_Finalize :: "MariaQuery \<Rightarrow> MariaQuery" where
  "MariaQuery_Finalize q =
     q\<lparr>mq_res := None, mq_row := None, mq_lengths := None, mq_fields := None, mq_eof := True,
       mq_num_fields := 0, mq_num_rows := 0\<rparr>"

definition MariaQuery_move :: "MariaQuery \<Rightarrow> MariaQuery \<times> MariaQuery" where
  "MariaQuery_move other =
     (\<lparr>mq_res = mq_res other, mq_row = mq_row other, mq_lengths = mq_lengths other,
       mq_fields = mq_fields other, mq_eof = mq_eof other, mq_num_fields = mq_num_fields other,
       mq_num_rows = mq_num_rows other\<rparr>,
      other\<lparr>mq_res := None, mq_row := None, mq_lengths := None, mq_fields := None,
            mq_eof := True, mq_num_fields := 0, mq_num_rows := 0\<rparr>)"

definition MariaQuery_move_assign :: "MariaQuery \<Rightarrow> MariaQuery \<Rightarrow> MariaQuery \<times> MariaQuery" where
  "MariaQuery_move_assign this other =
     ((MariaQuery_Finalize this)
        \<lparr>mq_res := mq_res other, mq_row := mq_row other, mq_lengths := mq_lengths other,
         mq_fields := mq_fields other, mq_eof := mq_eof other,
         mq_num_fields := mq_num_fields other, mq_num_rows := mq_num_rows other\<rparr>,
      other\<lparr>mq_res := None, mq_row := None, mq_lengths := None, mq_fields := None,
            mq_eof := True, mq_num_fields := 0, mq_num_rows := 0\<rparr>)"

definition MariaQuery_NumFields :: "MariaQuery \<Rightarrow> int" where
  "MariaQuery_NumFields q = mq_num_fields q"

text \<open>\<open>fields_[i].name\<close>, read inside the array.\<close>

definition field_name_at :: "MYSQL_FIELD list \<Rightarrow> int \<Rightarrow> string option" where
  "field_name_at fs i = (if 0 \<le> i \<and> i < int (length fs) then field_name (fs ! nat i) else None)"

definition MariaQuery_FieldIndex :: "MariaQuery \<Rightarrow> string option \<Rightarrow> int" where
  "MariaQuery_FieldIndex q name =
     (case (mq_fields q, name) of
        (Some fs, Some n) \<Rightarrow> find_name (field_name_at fs) (mq_num_fields q) n 0
      | _ \<Rightarrow> - 1)"

definition MariaQuery_FieldValue :: "MariaQuery \<Rightarrow> int \<Rightarrow> string option" where
  "MariaQuery_FieldValue q col =
     (case mq_row q of
        None \<Rightarrow> None
      | Some row \<Rightarrow> if col < 0 \<or> col \<ge> mq_num_fields q then None else table_at row col)"

definition MariaQuery_FieldIsNull :: "MariaQuery \<Rightarrow> int \<Rightarrow> bool" where
  "MariaQuery_FieldIsNull q col =
     (case mq_row q of
        None \<Rightarrow> True
      | Some row \<Rightarrow> if col < 0 \<or> col \<ge> mq_num_fields q then True else table_at row col = None)"

text \<open>\<open>row_[col]\<close>, the read the typed accessors make once the checks passed.\<close>

definition MariaQuery_row_at :: "MariaQuery \<Rightarrow> int \<Rightarrow> string option" where
  "MariaQuery_row_at q col = (case mq_row q of Some row \<Rightarrow> table_at row col | None \<Rightarrow> None)"

text \<open>
  The typed accessors parse the cell's text with the C library (\<open>strtol\<close>,
  \<open>strtoll\<close>, \<open>strtod\<close> in base 10), which is outside the repository: the parser is a
  parameter. \<open>static_cast<int32_t>\<close> of the \<open>long\<close> keeps its low 32 bits. After
  \<open>FieldIsNull\<close> answered false the cell is a string, so the \<open>None\<close> branch of the
  read is never taken.
\<close>

definition MariaQuery_GetInt :: "(string \<Rightarrow> int) \<Rightarrow> MariaQuery \<Rightarrow> int \<Rightarrow> 32 word \<Rightarrow> 32 word" where
  "MariaQuery_GetInt strtol q col null_value =
     (if MariaQuery_FieldIsNull q col then null_value
      else case MariaQuery_row_at q col of
             Some cell \<Rightarrow> word_of_int (strtol (c_str cell))
           | None \<Rightarrow> null_value)"

definition MariaQuery_GetInt_name ::
  "(string \<Rightarrow> int) \<Rightarrow> MariaQuery \<Rightarrow> string option \<Rightarrow> 32 word \<Rightarrow> 32 word" where
  "MariaQuery_GetInt_name strtol q name null_value =
     (let idx = MariaQuery_FieldIndex q name
      in if idx \<ge> 0 then MariaQuery_GetInt strtol q idx null_value else null_value)"

definition MariaQuery_GetInt64 :: "(string \<Rightarrow> int) \<Rightarrow> MariaQuery \<Rightarrow> int \<Rightarrow> 64 word \<Rightarrow> 64 word" where
  "MariaQuery_GetInt64 strtoll q col null_value =
     (if MariaQuery_FieldIsNull q col then null_value
      else case MariaQuery_row_at q col of
             Some cell \<Rightarrow> word_of_int (strtoll (c_str cell))
           | None \<Rightarrow> null_value)"

definition MariaQuery_GetDouble :: "(string \<Rightarrow> double) \<Rightarrow> MariaQuery \<Rightarrow> int \<Rightarrow> double \<Rightarrow> double" where
  "MariaQuery_GetDouble strtod q col null_value =
     (if MariaQuery_FieldIsNull q col then null_value
      else case MariaQuery_row_at q col of
             Some cell \<Rightarrow> strtod (c_str cell)
           | None \<Rightarrow> null_value)"

definition MariaQuery_GetDouble_name ::
  "(string \<Rightarrow> double) \<Rightarrow> MariaQuery \<Rightarrow> string option \<Rightarrow> double \<Rightarrow> double" where
  "MariaQuery_GetDouble_name strtod q name null_value =
     (let idx = MariaQuery_FieldIndex q name
      in if idx \<ge> 0 then MariaQuery_GetDouble strtod q idx null_value else null_value)"

definition MariaQuery_GetString :: "MariaQuery \<Rightarrow> int \<Rightarrow> string option \<Rightarrow> string option" where
  "MariaQuery_GetString q col null_value =
     (if MariaQuery_FieldIsNull q col then null_value else MariaQuery_row_at q col)"

definition MariaQuery_GetString_name ::
  "MariaQuery \<Rightarrow> string option \<Rightarrow> string option \<Rightarrow> string option" where
  "MariaQuery_GetString_name q name null_value =
     (let idx = MariaQuery_FieldIndex q name
      in if idx \<ge> 0 then MariaQuery_GetString q idx null_value else null_value)"

definition MariaQuery_Eof :: "MariaQuery \<Rightarrow> bool" where
  "MariaQuery_Eof q = mq_eof q"

definition MariaQuery_NextRow :: "MariaQuery \<Rightarrow> MariaQuery" where
  "MariaQuery_NextRow q =
     (case mq_res q of
        None \<Rightarrow> q
      | Some r \<Rightarrow>
          (let (row, r1) = mysql_fetch_row r in
           case row of
             Some cells \<Rightarrow>
               q\<lparr>mq_res := Some r1, mq_row := Some cells, mq_lengths := mysql_fetch_lengths r1\<rparr>
           | None \<Rightarrow> q\<lparr>mq_res := Some r1, mq_row := None, mq_eof := True, mq_lengths := None\<rparr>))"

section \<open>MariaResultSet (maria_result_set.hpp)\<close>

record MariaResultSet =
  mr_res :: "MYSQL_RES option"
  mr_row :: "string option list option"
  mr_fields :: "MYSQL_FIELD list option"
  mr_num_rows :: "64 word"
  mr_num_cols :: int
  mr_current_row :: "64 word"

definition MariaResultSet_default :: MariaResultSet where
  "MariaResultSet_default =
     \<lparr>mr_res = None, mr_row = None, mr_fields = None, mr_num_rows = 0, mr_num_cols = 0,
      mr_current_row = 0\<rparr>"

text \<open>The private constructor \<open>MariaResultSet(res)\<close>.\<close>

definition MariaResultSet_ctor :: "MYSQL_RES option \<Rightarrow> MariaResultSet" where
  "MariaResultSet_ctor res =
     (case res of
        None \<Rightarrow> MariaResultSet_default
      | Some r \<Rightarrow>
          (let s = MariaResultSet_default
                     \<lparr>mr_res := Some r, mr_num_rows := mysql_num_rows r,
                      mr_num_cols := int (mysql_num_fields r),
                      mr_fields := Some (mysql_fetch_fields r)\<rparr>
           in if mysql_num_rows r > 0 then
                (let (row, r1) = mysql_fetch_row r in s\<lparr>mr_res := Some r1, mr_row := row\<rparr>)
              else s))"

definition MariaResultSet_Finalize :: "MariaResultSet \<Rightarrow> MariaResultSet" where
  "MariaResultSet_Finalize s =
     s\<lparr>mr_res := None, mr_row := None, mr_fields := None, mr_num_rows := 0, mr_num_cols := 0,
       mr_current_row := 0\<rparr>"

definition MariaResultSet_move :: "MariaResultSet \<Rightarrow> MariaResultSet \<times> MariaResultSet" where
  "MariaResultSet_move other =
     (\<lparr>mr_res = mr_res other, mr_row = mr_row other, mr_fields = mr_fields other,
       mr_num_rows = mr_num_rows other, mr_num_cols = mr_num_cols other,
       mr_current_row = mr_current_row other\<rparr>,
      other\<lparr>mr_res := None, mr_row := None, mr_fields := None, mr_num_rows := 0,
            mr_num_cols := 0, mr_current_row := 0\<rparr>)"

definition MariaResultSet_move_assign ::
  "MariaResultSet \<Rightarrow> MariaResultSet \<Rightarrow> MariaResultSet \<times> MariaResultSet" where
  "MariaResultSet_move_assign this other =
     ((MariaResultSet_Finalize this)
        \<lparr>mr_res := mr_res other, mr_row := mr_row other, mr_fields := mr_fields other,
         mr_num_rows := mr_num_rows other, mr_num_cols := mr_num_cols other,
         mr_current_row := mr_current_row other\<rparr>,
      other\<lparr>mr_res := None, mr_row := None, mr_fields := None, mr_num_rows := 0,
            mr_num_cols := 0, mr_current_row := 0\<rparr>)"

definition MariaResultSet_NumFields :: "MariaResultSet \<Rightarrow> int" where
  "MariaResultSet_NumFields s = mr_num_cols s"

definition MariaResultSet_NumRows :: "MariaResultSet \<Rightarrow> 32 word" where
  "MariaResultSet_NumRows s = ucast (mr_num_rows s)"

definition MariaResultSet_FieldIndex :: "MariaResultSet \<Rightarrow> string option \<Rightarrow> int" where
  "MariaResultSet_FieldIndex s name =
     (case (mr_fields s, name) of
        (Some fs, Some n) \<Rightarrow> find_name (field_name_at fs) (mr_num_cols s) n 0
      | _ \<Rightarrow> - 1)"

definition MariaResultSet_FieldValue :: "MariaResultSet \<Rightarrow> int \<Rightarrow> string option" where
  "MariaResultSet_FieldValue s col =
     (case mr_row s of
        None \<Rightarrow> None
      | Some row \<Rightarrow> if col < 0 \<or> col \<ge> mr_num_cols s then None else table_at row col)"

definition MariaResultSet_FieldIsNull :: "MariaResultSet \<Rightarrow> int \<Rightarrow> bool" where
  "MariaResultSet_FieldIsNull s col =
     (case mr_row s of
        None \<Rightarrow> True
      | Some row \<Rightarrow> if col < 0 \<or> col \<ge> mr_num_cols s then True else table_at row col = None)"

definition MariaResultSet_Eof :: "MariaResultSet \<Rightarrow> bool" where
  "MariaResultSet_Eof s = (mr_current_row s \<ge> mr_num_rows s)"

definition MariaResultSet_NextRow :: "MariaResultSet \<Rightarrow> MariaResultSet" where
  "MariaResultSet_NextRow s =
     (case mr_res s of
        None \<Rightarrow> s
      | Some r \<Rightarrow>
          if mr_current_row s \<ge> mr_num_rows s then s
          else (let s1 = s\<lparr>mr_current_row := mr_current_row s + 1\<rparr> in
                if mr_current_row s1 < mr_num_rows s1 then
                  (let (row, r1) = mysql_fetch_row r in s1\<lparr>mr_res := Some r1, mr_row := row\<rparr>)
                else s1\<lparr>mr_row := None\<rparr>))"

definition MariaResultSet_SeekRow :: "MariaResultSet \<Rightarrow> 32 word \<Rightarrow> MariaResultSet" where
  "MariaResultSet_SeekRow s row =
     (case mr_res s of
        None \<Rightarrow> s
      | Some r \<Rightarrow>
          if mr_num_rows s = 0 then s
          else (let target = (ucast row :: 64 word);
                    target = (if target \<ge> mr_num_rows s then mr_num_rows s - 1 else target);
                    (fetched, r1) = mysql_fetch_row (mysql_data_seek r target)
                in s\<lparr>mr_current_row := target, mr_res := Some r1, mr_row := fetched\<rparr>))"

definition MariaResultSet_CurrentRow :: "MariaResultSet \<Rightarrow> 32 word" where
  "MariaResultSet_CurrentRow s = ucast (mr_current_row s)"

section \<open>MariaStatement (maria_statement.hpp)\<close>

record MariaStatement =
  ms_conn :: "MYSQL option"
  ms_stmt :: "MYSQL_STMT option"
  ms_binds :: "MYSQL_BIND list option"
  ms_int_storage :: "32 word list option"
  ms_int64_storage :: "64 word list option"
  ms_double_storage :: "double list option"
  ms_num_params :: int

definition MariaStatement_default :: MariaStatement where
  "MariaStatement_default =
     \<lparr>ms_conn = None, ms_stmt = None, ms_binds = None, ms_int_storage = None,
      ms_int64_storage = None, ms_double_storage = None, ms_num_params = 0\<rparr>"

text \<open>
  The private constructor \<open>MariaStatement(conn, stmt)\<close>: with a statement of \<open>n > 0\<close>
  parameters it allocates \<open>n\<close> zeroed descriptors and \<open>n\<close> zeroed cells of each
  numeric kind.
\<close>

definition MariaStatement_ctor :: "MYSQL option \<Rightarrow> MYSQL_STMT option \<Rightarrow> MariaStatement" where
  "MariaStatement_ctor conn stmt =
     (case stmt of
        None \<Rightarrow> MariaStatement_default\<lparr>ms_conn := conn\<rparr>
      | Some st \<Rightarrow>
          (let n = mysql_stmt_param_count st;
               s = MariaStatement_default\<lparr>ms_conn := conn, ms_stmt := Some st, ms_num_params := int n\<rparr>
           in if int n > 0 then
                s\<lparr>ms_binds := Some (replicate n MYSQL_BIND_zero),
                  ms_int_storage := Some (replicate n 0),
                  ms_int64_storage := Some (replicate n 0),
                  ms_double_storage := Some (replicate n (DoubleBits 0))\<rparr>
              else s))"

definition MariaStatement_Finalize :: "MariaStatement \<Rightarrow> MariaStatement" where
  "MariaStatement_Finalize s =
     s\<lparr>ms_stmt := None, ms_binds := None, ms_int_storage := None, ms_int64_storage := None,
       ms_double_storage := None, ms_num_params := 0\<rparr>"

definition MariaStatement_Valid :: "MariaStatement \<Rightarrow> bool" where
  "MariaStatement_Valid s = (ms_stmt s \<noteq> None)"

text \<open>
  The move constructor initialises \<open>conn_\<close>, \<open>stmt_\<close>, \<open>binds_\<close> and \<open>num_params_\<close>
  from the source; the three storage pointers of the new object get their default member
  initialiser, the null pointer, and those of the source are left as they are. The move
  assignment finalizes the destination and then assigns the same four members.
\<close>

definition MariaStatement_move :: "MariaStatement \<Rightarrow> MariaStatement \<times> MariaStatement" where
  "MariaStatement_move other =
     (\<lparr>ms_conn = ms_conn other, ms_stmt = ms_stmt other, ms_binds = ms_binds other,
       ms_int_storage = None, ms_int64_storage = None, ms_double_storage = None,
       ms_num_params = ms_num_params other\<rparr>,
      other\<lparr>ms_conn := None, ms_stmt := None, ms_binds := None, ms_num_params := 0\<rparr>)"

definition MariaStatement_move_assign ::
  "MariaStatement \<Rightarrow> MariaStatement \<Rightarrow> MariaStatement \<times> MariaStatement" where
  "MariaStatement_move_assign this other =
     ((MariaStatement_Finalize this)
        \<lparr>ms_conn := ms_conn other, ms_stmt := ms_stmt other, ms_binds := ms_binds other,
         ms_num_params := ms_num_params other\<rparr>,
      other\<lparr>ms_conn := None, ms_stmt := None, ms_binds := None, ms_num_params := 0\<rparr>)"

definition MariaStatement_ExecDml ::
  "MariaStatement \<Rightarrow> Error option \<Rightarrow> 32 word \<times> MariaStatement \<times> Error option" where
  "MariaStatement_ExecDml s out_error =
     (case ms_stmt s of
        None \<Rightarrow> (- 1, s, report out_error kMisuse (Some ''Statement not initialized''))
      | Some st \<Rightarrow>
          if ms_num_params s > 0 \<and> ms_binds s \<noteq> None \<and> mysql_stmt_bind_param st \<noteq> 0 then
            (- 1, s, report out_error kError (Some (mysql_stmt_error st)))
          else if mysql_stmt_execute st \<noteq> 0 then
            (- 1, s, report out_error kError (Some (mysql_stmt_error st)))
          else (ucast (mysql_stmt_affected_rows st), s, out_error))"

definition MariaStatement_ExecQuery ::
  "MariaStatement \<Rightarrow> Error option \<Rightarrow> MariaQuery \<times> MariaStatement \<times> Error option" where
  "MariaStatement_ExecQuery s out_error =
     (case (ms_stmt s, ms_conn s) of
        (Some st, Some conn) \<Rightarrow>
          if ms_num_params s > 0 \<and> ms_binds s \<noteq> None \<and> mysql_stmt_bind_param st \<noteq> 0 then
            (MariaQuery_default, s, report out_error kError (Some (mysql_stmt_error st)))
          else if mysql_stmt_execute st \<noteq> 0 then
            (MariaQuery_default, s, report out_error kError (Some (mysql_stmt_error st)))
          else
            (case mysql_stmt_result_metadata st of
               None \<Rightarrow> (MariaQuery_default, s, report out_error kError (Some ''No result metadata''))
             | Some meta \<Rightarrow>
                 if mysql_stmt_store_result st \<noteq> 0 then
                   (MariaQuery_default, s, report out_error kError (Some (mysql_stmt_error st)))
                 else
                   (MariaQuery_default, s,
                    report out_error kError
                      (Some ''Prepared SELECT not yet supported, use Db::ExecQuery'')))
      | _ \<Rightarrow> (MariaQuery_default, s, report out_error kMisuse (Some ''Statement not initialized'')))"

definition MariaStatement_ValidParam :: "MariaStatement \<Rightarrow> int \<Rightarrow> bool" where
  "MariaStatement_ValidParam s idx =
     (ms_stmt s \<noteq> None \<and> ms_binds s \<noteq> None \<and> idx \<ge> 0 \<and> idx < ms_num_params s)"

text \<open>
  \<open>set_bind\<close> replaces the descriptor \<open>binds_[idx]\<close> (a \<open>memset\<close> to zero followed
  by assignments to its members); \<open>update_bind\<close> assigns to members of the descriptor
  that is there.
\<close>

definition set_bind :: "MariaStatement \<Rightarrow> int \<Rightarrow> MYSQL_BIND \<Rightarrow> MariaStatement" where
  "set_bind s idx b = s\<lparr>ms_binds := map_option (\<lambda>bs. bs[nat idx := b]) (ms_binds s)\<rparr>"

definition update_bind :: "MariaStatement \<Rightarrow> int \<Rightarrow> (MYSQL_BIND \<Rightarrow> MYSQL_BIND) \<Rightarrow> MariaStatement" where
  "update_bind s idx f =
     s\<lparr>ms_binds := map_option (\<lambda>bs. bs[nat idx := f (bs ! nat idx)]) (ms_binds s)\<rparr>"

text \<open>
  The three \<open>Store\<close> helpers write the value into the cell \<open>idx\<close> of a storage array
  first. With a null storage pointer that write is undefined behaviour: the result is
  \<open>None\<close>.
\<close>

definition MariaStatement_StoreInt32 :: "MariaStatement \<Rightarrow> int \<Rightarrow> 32 word \<Rightarrow> MariaStatement option" where
  "MariaStatement_StoreInt32 s idx val =
     (case ms_int_storage s of
        None \<Rightarrow> None
      | Some cells \<Rightarrow>
          Some (update_bind (s\<lparr>ms_int_storage := Some (cells[nat idx := val])\<rparr>) idx
                  (\<lambda>b. b\<lparr>buffer_type := MYSQL_TYPE_LONG, buffer := Int32Cell (nat idx),
                          is_unsigned := 0\<rparr>)))"

definition MariaStatement_StoreInt64 :: "MariaStatement \<Rightarrow> int \<Rightarrow> 64 word \<Rightarrow> MariaStatement option" where
  "MariaStatement_StoreInt64 s idx val =
     (case ms_int64_storage s of
        None \<Rightarrow> None
      | Some cells \<Rightarrow>
          Some (update_bind (s\<lparr>ms_int64_storage := Some (cells[nat idx := val])\<rparr>) idx
                  (\<lambda>b. b\<lparr>buffer_type := MYSQL_TYPE_LONGLONG, buffer := Int64Cell (nat idx),
                          is_unsigned := 0\<rparr>)))"

definition MariaStatement_StoreDouble :: "MariaStatement \<Rightarrow> int \<Rightarrow> double \<Rightarrow> MariaStatement option" where
  "MariaStatement_StoreDouble s idx val =
     (case ms_double_storage s of
        None \<Rightarrow> None
      | Some cells \<Rightarrow>
          Some (update_bind (s\<lparr>ms_double_storage := Some (cells[nat idx := val])\<rparr>) idx
                  (\<lambda>b. b\<lparr>buffer_type := MYSQL_TYPE_DOUBLE, buffer := DoubleCell (nat idx)\<rparr>)))"

definition MariaStatement_Bind_text :: "MariaStatement \<Rightarrow> int \<Rightarrow> string option \<Rightarrow> Error \<times> MariaStatement" where
  "MariaStatement_Bind_text s param val =
     (let idx = param - 1 in
      if \<not> MariaStatement_ValidParam s idx then (Make kRange (Some ''param out of range''), s)
      else (Error_Ok,
            set_bind s idx
              (MYSQL_BIND_zero
                 \<lparr>buffer_type := MYSQL_TYPE_STRING,
                  buffer := (case val of None \<Rightarrow> NullBuffer | Some v \<Rightarrow> CallerText v),
                  buffer_length := (case val of None \<Rightarrow> 0 | Some v \<Rightarrow> length (c_str v)),
                  is_null_value := (if val = None then 1 else 0)\<rparr>)))"

definition MariaStatement_Bind_int ::
  "MariaStatement \<Rightarrow> int \<Rightarrow> 32 word \<Rightarrow> (Error \<times> MariaStatement) option" where
  "MariaStatement_Bind_int s param val =
     (let idx = param - 1 in
      if \<not> MariaStatement_ValidParam s idx then Some (Make kRange (Some ''param out of range''), s)
      else map_option (Pair Error_Ok)
             (MariaStatement_StoreInt32 (set_bind s idx MYSQL_BIND_zero) idx val))"

definition MariaStatement_Bind_int64 ::
  "MariaStatement \<Rightarrow> int \<Rightarrow> 64 word \<Rightarrow> (Error \<times> MariaStatement) option" where
  "MariaStatement_Bind_int64 s param val =
     (let idx = param - 1 in
      if \<not> MariaStatement_ValidParam s idx then Some (Make kRange (Some ''param out of range''), s)
      else map_option (Pair Error_Ok)
             (MariaStatement_StoreInt64 (set_bind s idx MYSQL_BIND_zero) idx val))"

definition MariaStatement_Bind_double ::
  "MariaStatement \<Rightarrow> int \<Rightarrow> double \<Rightarrow> (Error \<times> MariaStatement) option" where
  "MariaStatement_Bind_double s param val =
     (let idx = param - 1 in
      if \<not> MariaStatement_ValidParam s idx then Some (Make kRange (Some ''param out of range''), s)
      else map_option (Pair Error_Ok)
             (MariaStatement_StoreDouble (set_bind s idx MYSQL_BIND_zero) idx val))"

text \<open>\<open>static_cast<unsigned long>(len)\<close> of an \<open>int32_t\<close>, the \<open>unsigned long\<close> of 64 bits.\<close>

definition MariaStatement_Bind_blob ::
  "MariaStatement \<Rightarrow> int \<Rightarrow> 8 word list option \<Rightarrow> int \<Rightarrow> Error \<times> MariaStatement" where
  "MariaStatement_Bind_blob s param blob len =
     (let idx = param - 1 in
      if \<not> MariaStatement_ValidParam s idx then (Make kRange (Some ''param out of range''), s)
      else (Error_Ok,
            set_bind s idx
              (MYSQL_BIND_zero
                 \<lparr>buffer_type := MYSQL_TYPE_BLOB,
                  buffer := (case blob of None \<Rightarrow> NullBuffer | Some b \<Rightarrow> CallerBlob b),
                  buffer_length := nat (len mod 2 ^ 64)\<rparr>)))"

definition MariaStatement_BindNull :: "MariaStatement \<Rightarrow> int \<Rightarrow> Error \<times> MariaStatement" where
  "MariaStatement_BindNull s param =
     (let idx = param - 1 in
      if \<not> MariaStatement_ValidParam s idx then (Make kRange (Some ''param out of range''), s)
      else (Error_Ok, set_bind s idx (MYSQL_BIND_zero\<lparr>buffer_type := MYSQL_TYPE_NULL\<rparr>)))"


section \<open>MariaDb (maria_db.hpp)\<close>

record MariaDb =
  md_conn :: "MYSQL option"
  md_in_transaction :: bool

definition MariaDb_default :: MariaDb where
  "MariaDb_default = \<lparr>md_conn = None, md_in_transaction = False\<rparr>"

definition MariaDb_Close :: "MariaDb \<Rightarrow> MariaDb" where
  "MariaDb_Close d = d\<lparr>md_conn := None, md_in_transaction := False\<rparr>"

definition MariaDb_IsOpen :: "MariaDb \<Rightarrow> bool" where
  "MariaDb_IsOpen d = (md_conn d \<noteq> None)"

definition MariaDb_move :: "MariaDb \<Rightarrow> MariaDb \<times> MariaDb" where
  "MariaDb_move other =
     (\<lparr>md_conn = md_conn other, md_in_transaction = md_in_transaction other\<rparr>,
      other\<lparr>md_conn := None, md_in_transaction := False\<rparr>)"

definition MariaDb_move_assign :: "MariaDb \<Rightarrow> MariaDb \<Rightarrow> MariaDb \<times> MariaDb" where
  "MariaDb_move_assign this other =
     ((MariaDb_Close this)\<lparr>md_conn := md_conn other, md_in_transaction := md_in_transaction other\<rparr>,
      other\<lparr>md_conn := None, md_in_transaction := False\<rparr>)"

definition MariaDb_ExecQuery ::
  "MariaDb \<Rightarrow> string option \<Rightarrow> Error option \<Rightarrow> MariaQuery \<times> Error option" where
  "MariaDb_ExecQuery d sql out_error =
     (case md_conn d of
        None \<Rightarrow> (MariaQuery_default, report out_error kNotOpen (Some ''Database not open''))
      | Some conn \<Rightarrow>
          (case sql of
             None \<Rightarrow> (MariaQuery_default, report out_error kNullParam (Some ''sql is null''))
           | Some text \<Rightarrow>
               (let reply = mysql_query conn (c_str text) in
                if reply_status reply \<noteq> 0 then
                  (MariaQuery_default, report out_error kError (Some (reply_error reply)))
                else
                  (case reply_result reply of
                     None \<Rightarrow>
                       (MariaQuery_default,
                        if reply_field_count reply > 0
                        then report out_error kError (Some (reply_error reply))
                        else out_error)
                   | Some res \<Rightarrow> (MariaQuery_ctor (Some res) (mysql_num_rows res = 0), out_error)))))"

definition MariaDb_ExecScalar ::
  "(string \<Rightarrow> int) \<Rightarrow> MariaDb \<Rightarrow> string option \<Rightarrow> 32 word \<Rightarrow> Error option \<Rightarrow> 32 word \<times> Error option" where
  "MariaDb_ExecScalar strtol d sql null_value out_error =
     (let (q, err) = MariaDb_ExecQuery d sql out_error in
      if MariaQuery_Eof q \<or> MariaQuery_NumFields q < 1 then (null_value, err)
      else (MariaQuery_GetInt strtol q 0 null_value, err))"

definition MariaDb_TableExists_sql :: "string \<Rightarrow> string" where
  "MariaDb_TableExists_sql table =
     vsnprintf (replicate 256 NUL) 256
       (format_expand
          (''SELECT COUNT(*) FROM information_schema.tables ''
           @ ''WHERE table_schema = DATABASE() AND table_name = '%s'' @ [CHR 0x27])
          [table])"

definition MariaDb_TableExists :: "(string \<Rightarrow> int) \<Rightarrow> MariaDb \<Rightarrow> string option \<Rightarrow> bool" where
  "MariaDb_TableExists strtol d table =
     (case (md_conn d, table) of
        (Some conn, Some t) \<Rightarrow>
          0 < sint (fst (MariaDb_ExecScalar strtol d (Some (MariaDb_TableExists_sql t)) 0 None))
      | _ \<Rightarrow> False)"

section \<open>Example objects\<close>

text \<open>
  A two-column result of two rows (the name of the first row is NULL), a native prepared statement that executes and has
  result metadata, one that fails to execute, and a connection whose server answers
  every query with the two-row result.
\<close>

definition example_res :: MYSQL_RES where
  "example_res =
     \<lparr>res_rows = [[Some ''1'', None], [Some ''2'', Some ''Bob'']],
      res_fields = [\<lparr>field_name = Some ''id''\<rparr>, \<lparr>field_name = Some ''name''\<rparr>],
      res_pos = 0\<rparr>"

definition example_mysql_stmt :: MYSQL_STMT where
  "example_mysql_stmt =
     \<lparr>mysql_stmt_param_count = 1, mysql_stmt_bind_param = 0, mysql_stmt_execute = 0,
      mysql_stmt_result_metadata = Some example_res, mysql_stmt_store_result = 0,
      mysql_stmt_num_rows = 2, mysql_stmt_affected_rows = 0, mysql_stmt_reset = 0,
      mysql_stmt_error = []\<rparr>"

definition example_mysql_stmt_failing :: MYSQL_STMT where
  "example_mysql_stmt_failing =
     example_mysql_stmt\<lparr>mysql_stmt_execute := 1, mysql_stmt_error := ''Lost connection''\<rparr>"

definition example_mysql :: MYSQL where
  "example_mysql =
     \<lparr>mysql_query = (\<lambda>sql. \<lparr>reply_status = 0, reply_result = Some example_res,
                              reply_field_count = 1, reply_error = []\<rparr>)\<rparr>"

definition example_MariaStatement :: MariaStatement where
  "example_MariaStatement = MariaStatement_ctor (Some example_mysql) (Some example_mysql_stmt)"

definition example_MariaStatement_failing :: MariaStatement where
  "example_MariaStatement_failing
     = MariaStatement_ctor (Some example_mysql) (Some example_mysql_stmt_failing)"

text \<open>
  An embedded-engine statement with two columns and one parameter whose steps will
  report two rows (the name of the first is NULL) and then completion, and a connection
  that compiles every text to it.
\<close>

definition example_cell :: "32 word \<Rightarrow> sqlite3_column" where
  "example_cell v =
     \<lparr>column_type = 1, column_int = v, column_int64 = ucast v, column_double = DoubleBits 0,
      column_text = Some ''n''\<rparr>"

definition example_null_cell :: sqlite3_column where
  "example_null_cell =
     \<lparr>column_type = SQLITE_NULL, column_int = 0, column_int64 = 0, column_double = DoubleBits 0,
      column_text = None\<rparr>"

definition example_rows :: "sqlite3_column list list" where
  "example_rows = [[example_cell 1, example_null_cell], [example_cell 2, example_cell 7]]"

definition example_sqlite3_stmt :: sqlite3_stmt where
  "example_sqlite3_stmt =
     \<lparr>column_names = [Some ''id'', Some ''name''],
      upcoming = map StepRow example_rows @ [StepDone],
      current_row = [], bindings = [None], last_step = 0\<rparr>"

definition example_sqlite3 :: sqlite3 where
  "example_sqlite3 =
     \<lparr>prepare_v2 = (\<lambda>sql. (0, Some example_sqlite3_stmt)), errmsg = ''engine error'',
      changes = 1\<rparr>"

definition example_Sqlite3Statement :: Sqlite3Statement where
  "example_Sqlite3Statement = Sqlite3Statement_ctor (Some example_sqlite3) (Some example_sqlite3_stmt)"

definition example_Sqlite3Db :: Sqlite3Db where
  "example_Sqlite3Db = \<lparr>sd_db = Some example_sqlite3\<rparr>"

definition example_MariaDb :: MariaDb where
  "example_MariaDb = \<lparr>md_conn = Some example_mysql, md_in_transaction = False\<rparr>"

text \<open>
  An embedded-engine connection to a database whose catalog holds the single table
  \<open>emp\<close>, as far as the count queries of \<open>TableExists\<close> go. The engine answers a count
  query with one row of one column. The count is 1 for the query that names \<open>emp\<close>. It
  is 1 as well for the text that ends in \<open>name='x' OR '1'='1'\<close>: there \<open>AND\<close> binds
  tighter than \<open>OR\<close>, so the condition holds of every row of the catalog and the count is
  the number of its rows. It is 0 for every other text, among them the queries for a
  name that is no table, with or without doubled quotes.
\<close>

definition example_count_stmt :: "32 word \<Rightarrow> sqlite3_stmt" where
  "example_count_stmt n =
     \<lparr>column_names = [Some ''count(*)''], upcoming = [StepRow [example_cell n], StepDone],
      current_row = [], bindings = [], last_step = 0\<rparr>"

definition example_catalog_sqlite3 :: sqlite3 where
  "example_catalog_sqlite3 =
     \<lparr>prepare_v2 =
        (\<lambda>sql. if sql = ''SELECT count(*) FROM sqlite_master WHERE type='table' AND name='emp''
                            @ [CHR 0x27]
                     \<or> sql = ''SELECT count(*) FROM sqlite_master WHERE type='table' AND name='x' OR '1'='1''
                              @ [CHR 0x27]
                then (0, Some (example_count_stmt 1))
                else (0, Some (example_count_stmt 0))),
      errmsg = [], changes = 0\<rparr>"

definition example_catalog_Sqlite3Db :: Sqlite3Db where
  "example_catalog_Sqlite3Db = \<lparr>sd_db = Some example_catalog_sqlite3\<rparr>"

text \<open>The cursors the example connections return, each on its first row.\<close>

definition example_Sqlite3Query :: Sqlite3Query where
  "example_Sqlite3Query = fst (Sqlite3Db_ExecQuery example_Sqlite3Db (Some ''SELECT * FROM emp'') None)"

definition example_MariaQuery :: MariaQuery where
  "example_MariaQuery = fst (MariaDb_ExecQuery example_MariaDb (Some ''SELECT * FROM emp'') None)"

text \<open>
  The result sets of the example: the \<open>sqlite3_get_table\<close> layout of two columns and
  two rows, and the result set over the stored two-row result.
\<close>

definition example_table_names :: "string option list" where
  "example_table_names = [Some ''id'', Some ''name'']"

definition example_table_rows :: "string option list list" where
  "example_table_rows = [[Some ''1'', None], [Some ''2'', Some ''Bob'']]"

definition example_Sqlite3ResultSet :: Sqlite3ResultSet where
  "example_Sqlite3ResultSet =
     Sqlite3ResultSet_ctor (Some (example_table_names @ concat example_table_rows)) 2 2"

definition example_MariaResultSet :: MariaResultSet where
  "example_MariaResultSet = MariaResultSet_ctor (Some example_res)"

section \<open>Escaping, as the specification asks for it\<close>

text \<open>
  Modelled from the spec: the specification asks that \<open>TableExists\<close> escape the name
  rather than splice it; no escaping function exists in the source. For a single-quoted
  SQL literal, escaping doubles every single quote of the name.
\<close>

definition spec_escape_sql_literal :: "string \<Rightarrow> string" where
  "spec_escape_sql_literal name =
     concat (map (\<lambda>c. if c = CHR 0x27 then [CHR 0x27, CHR 0x27] else [c]) name)"

section \<open>Properties of the error model\<close>

lemma c_str_length_le: "length (c_str s) \<le> length s"
  by (simp add: c_str_def length_takeWhile_le)

lemma c_str_no_NUL: "NUL \<notin> set (c_str s)"
  by (auto simp: c_str_def dest: set_takeWhileD)

lemma c_str_append_NUL: "NUL \<notin> set xs \<Longrightarrow> c_str (xs @ NUL # ys) = xs"
  by (induction xs) (auto simp: c_str_def)

lemma c_str_idem: "c_str (c_str s) = c_str s"
  by (simp add: c_str_def)

lemma c_str_NUL_free: "NUL \<notin> set s \<Longrightarrow> c_str s = s"
  by (induction s) (auto simp: c_str_def)

lemma c_str_take: "c_str (take n (c_str s)) = take n (c_str s)"
  by (rule c_str_NUL_free) (meson c_str_no_NUL in_set_takeD)

lemma c_str_update_0: "0 < length buf \<Longrightarrow> c_str (buf[0 := NUL]) = []"
  by (cases buf) (simp_all add: c_str_def)

lemma strncpy_length: "n \<le> length dest \<Longrightarrow> length (strncpy dest src n) = length dest"
  by (simp add: strncpy_def)

lemma strncpy_terminated:
  assumes "length dest = Suc n"
  shows "c_str ((strncpy dest src n)[n := NUL]) = take n (c_str src)"
proof -
  define front where "front = take n (c_str src @ replicate (n - length (c_str src)) NUL)"
  have len: "length front = n" by (simp add: front_def)
  have "drop n dest \<noteq> []" using assms by simp
  then obtain d ds where d: "drop n dest = d # ds" by (cases "drop n dest") auto
  have "strncpy dest src n = front @ d # ds"
    by (simp only: strncpy_def front_def d)
  then have upd: "(strncpy dest src n)[n := NUL] = front @ NUL # ds"
    using len by (simp add: list_update_append)
  show ?thesis
  proof (cases "length (c_str src) < n")
    case True
    then have tk: "front = c_str src @ replicate (n - length (c_str src)) NUL"
      by (simp add: front_def)
    from True obtain k where k: "n - length (c_str src) = Suc k"
      by (cases "n - length (c_str src)") auto
    have "c_str ((strncpy dest src n)[n := NUL])
            = c_str (c_str src @ NUL # (replicate k NUL @ NUL # ds))"
      by (simp add: upd tk k)
    also have "\<dots> = c_str src"
      by (rule c_str_append_NUL) (rule c_str_no_NUL)
    finally show ?thesis using True by simp
  next
    case False
    then have tk: "front = take n (c_str src)" by (simp add: front_def)
    have "NUL \<notin> set (take n (c_str src))"
      by (meson c_str_no_NUL in_set_takeD)
    then show ?thesis by (simp add: upd tk c_str_append_NUL)
  qed
qed

lemma vsnprintf_length:
  "0 < sz \<Longrightarrow> sz \<le> length buf \<Longrightarrow> length (vsnprintf buf sz text) = length buf"
  by (auto simp: vsnprintf_def min_def)

lemma vsnprintf_c_str:
  "0 < sz \<Longrightarrow> c_str (vsnprintf buf sz text) = take (sz - 1) (c_str text)"
proof -
  assume "0 < sz"
  have "NUL \<notin> set (take (sz - 1) (c_str text))"
    by (meson c_str_no_NUL in_set_takeD)
  then show ?thesis using \<open>0 < sz\<close>
    by (simp add: vsnprintf_def c_str_append_NUL)
qed

lemma c_str_short_has_NUL: "length (c_str s) < length s \<Longrightarrow> NUL \<in> set s"
  using c_str_NUL_free by fastforce


lemma Set_code: "code (Set e c msg) = c"
  by (simp add: Set_def split: option.split)

lemma Set_length:
  "length (message e) = kMaxMessageLen \<Longrightarrow> length (message (Set e c msg)) = kMaxMessageLen"
  by (simp add: Set_def strncpy_length kMaxMessageLen_def split: option.split)

lemma Set_c_str:
  assumes "length (message e) = kMaxMessageLen"
  shows "c_str (message (Set e c msg))
           = (case msg of None \<Rightarrow> [] | Some m \<Rightarrow> take (kMaxMessageLen - 1) (c_str m))"
proof (cases msg)
  case None
  then show ?thesis using assms by (simp add: Set_def c_str_update_0 kMaxMessageLen_def)
next
  case (Some m)
  have "length (message e) = Suc (kMaxMessageLen - 1)"
    using assms by (simp add: kMaxMessageLen_def)
  then show ?thesis using Some by (simp add: Set_def strncpy_terminated)
qed

lemma SetFormat_code: "code (SetFormat e c fmt expand) = c"
  by (simp add: SetFormat_def split: option.split)

lemma SetFormat_length:
  "length (message e) = kMaxMessageLen \<Longrightarrow>
     length (message (SetFormat e c fmt expand)) = kMaxMessageLen"
  by (simp add: SetFormat_def vsnprintf_length kMaxMessageLen_def split: option.split)

lemma SetFormat_c_str:
  assumes "length (message e) = kMaxMessageLen"
  shows "c_str (message (SetFormat e c fmt expand))
           = (case fmt of None \<Rightarrow> []
              | Some f \<Rightarrow> take (kMaxMessageLen - 1) (c_str (expand (c_str f))))"
  using assms
  by (simp add: SetFormat_def c_str_update_0 vsnprintf_c_str kMaxMessageLen_def
           split: option.split)

lemma bounded_text_terminated:
  assumes "length buf = kMaxMessageLen" and "c_str buf = take (kMaxMessageLen - 1) t"
  shows "length (c_str buf) < kMaxMessageLen \<and> NUL \<in> set buf"
proof -
  have "length (c_str buf) < kMaxMessageLen"
    using assms(2) by (simp add: kMaxMessageLen_def)
  then show ?thesis using assms(1) c_str_short_has_NUL by auto
qed

text \<open>
  C10. After \<open>Error::Set\<close> and after \<open>Error::SetFormat\<close>, whatever the code and the
  message or format (a null pointer included), the code field is the given code, the
  buffer still has its 256 bytes and holds a NUL, and the text it denotes is the
  argument's text cut to 255 bytes (the empty text for a null pointer).
\<close>

theorem Error_Set_SetFormat_bounded:
  assumes "length (message e) = kMaxMessageLen"
  shows "code (Set e c msg) = c
       \<and> length (message (Set e c msg)) = kMaxMessageLen
       \<and> NUL \<in> set (message (Set e c msg))
       \<and> length (c_str (message (Set e c msg))) < kMaxMessageLen
       \<and> c_str (message (Set e c msg))
           = (case msg of None \<Rightarrow> [] | Some m \<Rightarrow> take (kMaxMessageLen - 1) (c_str m))
       \<and> code (SetFormat e c fmt expand) = c
       \<and> length (message (SetFormat e c fmt expand)) = kMaxMessageLen
       \<and> NUL \<in> set (message (SetFormat e c fmt expand))
       \<and> length (c_str (message (SetFormat e c fmt expand))) < kMaxMessageLen
       \<and> c_str (message (SetFormat e c fmt expand))
           = (case fmt of None \<Rightarrow> []
              | Some f \<Rightarrow> take (kMaxMessageLen - 1) (c_str (expand (c_str f))))"
proof -
  have s1: "c_str (message (Set e c msg))
              = take (kMaxMessageLen - 1) (case msg of None \<Rightarrow> [] | Some m \<Rightarrow> c_str m)"
    using Set_c_str [OF assms] by (simp split: option.split)
  have s2: "c_str (message (SetFormat e c fmt expand))
              = take (kMaxMessageLen - 1)
                  (case fmt of None \<Rightarrow> [] | Some f \<Rightarrow> c_str (expand (c_str f)))"
    using SetFormat_c_str [OF assms] by (simp split: option.split)
  note b1 = bounded_text_terminated [OF Set_length [OF assms] s1]
  note b2 = bounded_text_terminated [OF SetFormat_length [OF assms] s2]
  show ?thesis
    using b1 b2 Set_code Set_length [OF assms] Set_c_str [OF assms]
      SetFormat_code SetFormat_length [OF assms] SetFormat_c_str [OF assms]
    by simp
qed

theorem Error_Set_SetFormat_bounded_witness:
  "length (message Error_default) = kMaxMessageLen
   \<and> code (Set Error_default kRange (Some (replicate 300 (CHR ''a'')))) = kRange
   \<and> c_str (message (Set Error_default kRange (Some (replicate 300 (CHR ''a'')))))
       = replicate 255 (CHR ''a'')
   \<and> c_str (message (SetFormat Error_default kRange (Some ''no table %s'')
                        (\<lambda>f. format_expand f [''emp''])))
       = ''no table emp''"
proof -
  have h: "length (message Error_default) = kMaxMessageLen"
    by (simp add: Error_default_def)
  have "c_str (replicate 300 (CHR ''a'')) = replicate 300 (CHR ''a'')"
    by (rule c_str_NUL_free) (simp add: NUL_def)
  moreover have "c_str ''no table %s'' = ''no table %s''"
    by (simp add: c_str_def NUL_def)
  moreover have "c_str ''emp'' = ''emp''" "c_str ''no table emp'' = ''no table emp''"
    by (simp_all add: c_str_def NUL_def)
  ultimately show ?thesis
    using h
      Error_Set_SetFormat_bounded [OF h, of kRange "Some (replicate 300 (CHR ''a''))"
        "Some ''no table %s''" "\<lambda>f. format_expand f [''emp'']"]
    by (simp add: kMaxMessageLen_def)
qed

section \<open>Ownership of the native statement handle across execution\<close>

lemma Make_code: "code (Make c msg) = c"
  by (simp add: Make_def Set_code)

lemma Sqlite3Statement_ExecQuery_transfers:
  assumes "ss_db s = Some db" and "ss_stmt s = Some stmt"
    and "fst (sqlite3_step stmt) = SQLITE_ROW \<or> fst (sqlite3_step stmt) = SQLITE_DONE"
  shows "Sqlite3Statement_ExecQuery s out_error =
           (Sqlite3Query_ctor (Some db) (Some (snd (sqlite3_step stmt)))
              (fst (sqlite3_step stmt) = SQLITE_DONE),
            s\<lparr>ss_stmt := None\<rparr>, out_error)"
  using assms
  by (auto simp: Sqlite3Statement_ExecQuery_def SQLITE_ROW_def SQLITE_DONE_def
           split: prod.splits)

lemma Sqlite3Statement_ExecDml_keeps_handle:
  "Sqlite3Statement_Valid (fst (snd (Sqlite3Statement_ExecDml s out_error)))
     = Sqlite3Statement_Valid s"
  by (auto simp: Sqlite3Statement_ExecDml_def Sqlite3Statement_Valid_def
           split: option.splits prod.splits)

lemma Sqlite3Statement_ExecDml_without_handle:
  "ss_stmt s = None \<Longrightarrow> fst (Sqlite3Statement_ExecDml s out_error) = - 1"
  by (simp add: Sqlite3Statement_ExecDml_def split: option.splits)

lemma MariaStatement_ExecQuery_never_transfers:
  "fst (MariaStatement_ExecQuery s out_error) = MariaQuery_default
   \<and> fst (snd (MariaStatement_ExecQuery s out_error)) = s"
  by (simp add: MariaStatement_ExecQuery_def split: option.splits)

lemma MariaStatement_ExecDml_keeps_statement:
  "fst (snd (MariaStatement_ExecDml s out_error)) = s"
  by (simp add: MariaStatement_ExecDml_def split: option.splits)

text \<open>
  C1, as the code has it. On the embedded backend an \<open>ExecQuery\<close> whose first step
  reports a row or completion hands the stepped native statement to the returned cursor
  and leaves the statement without a handle (\<open>Valid\<close> false; executing it again
  fails with -1), reporting no error. On
  the client/server backend \<open>ExecQuery\<close> never transfers: whatever the engine answers,
  the returned cursor is the empty one and the statement is unchanged, handle included.
  \<open>ExecDml\<close> keeps the statement's handle on both backends.
\<close>

theorem ExecQuery_consumes_on_embedded_only:
  "(ss_db s = Some db \<and> ss_stmt s = Some stmt
      \<and> (fst (sqlite3_step stmt) = SQLITE_ROW \<or> fst (sqlite3_step stmt) = SQLITE_DONE)
    \<longrightarrow> sq_stmt (fst (Sqlite3Statement_ExecQuery s out_error)) = Some (snd (sqlite3_step stmt))
        \<and> sq_eof (fst (Sqlite3Statement_ExecQuery s out_error))
            = (fst (sqlite3_step stmt) = SQLITE_DONE)
        \<and> ss_stmt (fst (snd (Sqlite3Statement_ExecQuery s out_error))) = None
        \<and> \<not> Sqlite3Statement_Valid (fst (snd (Sqlite3Statement_ExecQuery s out_error)))
        \<and> fst (Sqlite3Statement_ExecDml (fst (snd (Sqlite3Statement_ExecQuery s out_error))) None)
            = - 1
        \<and> snd (snd (Sqlite3Statement_ExecQuery s out_error)) = out_error)
   \<and> Sqlite3Statement_Valid (fst (snd (Sqlite3Statement_ExecDml s out_error)))
       = Sqlite3Statement_Valid s
   \<and> fst (MariaStatement_ExecQuery m out_error) = MariaQuery_default
   \<and> fst (snd (MariaStatement_ExecQuery m out_error)) = m
   \<and> fst (snd (MariaStatement_ExecDml m out_error)) = m"
proof -
  have "sq_stmt (fst (Sqlite3Statement_ExecQuery s out_error)) = Some (snd (sqlite3_step stmt))
        \<and> sq_eof (fst (Sqlite3Statement_ExecQuery s out_error))
            = (fst (sqlite3_step stmt) = SQLITE_DONE)
        \<and> ss_stmt (fst (snd (Sqlite3Statement_ExecQuery s out_error))) = None
        \<and> \<not> Sqlite3Statement_Valid (fst (snd (Sqlite3Statement_ExecQuery s out_error)))
        \<and> fst (Sqlite3Statement_ExecDml (fst (snd (Sqlite3Statement_ExecQuery s out_error))) None)
            = - 1
        \<and> snd (snd (Sqlite3Statement_ExecQuery s out_error)) = out_error"
    if "ss_db s = Some db" "ss_stmt s = Some stmt"
      "fst (sqlite3_step stmt) = SQLITE_ROW \<or> fst (sqlite3_step stmt) = SQLITE_DONE"
    using Sqlite3Statement_ExecQuery_transfers [OF that, of out_error]
    by (simp add: Sqlite3Query_ctor_def Sqlite3Statement_Valid_def
          Sqlite3Statement_ExecDml_without_handle)
  then show ?thesis
    using Sqlite3Statement_ExecDml_keeps_handle [of s out_error]
      MariaStatement_ExecQuery_never_transfers [of m out_error]
      MariaStatement_ExecDml_keeps_statement [of m out_error]
    by blast
qed

lemma example_sqlite3_first_step:
  "sqlite3_step example_sqlite3_stmt =
     (SQLITE_ROW,
      example_sqlite3_stmt
        \<lparr>upcoming := [StepRow [example_cell 2, example_cell 7], StepDone],
         current_row := [example_cell 1, example_null_cell], last_step := SQLITE_ROW\<rparr>)"
  by (simp add: sqlite3_step_def example_sqlite3_stmt_def example_rows_def)

theorem ExecQuery_consumes_on_embedded_only_witness:
  "ss_db example_Sqlite3Statement = Some example_sqlite3
   \<and> ss_stmt example_Sqlite3Statement = Some example_sqlite3_stmt
   \<and> fst (sqlite3_step example_sqlite3_stmt) = SQLITE_ROW
   \<and> map_option current_row (sq_stmt (fst (Sqlite3Statement_ExecQuery example_Sqlite3Statement None)))
       = Some [example_cell 1, example_null_cell]
   \<and> \<not> sq_eof (fst (Sqlite3Statement_ExecQuery example_Sqlite3Statement None))
   \<and> \<not> Sqlite3Statement_Valid (fst (snd (Sqlite3Statement_ExecQuery example_Sqlite3Statement None)))
   \<and> Sqlite3Statement_Valid (fst (snd (Sqlite3Statement_ExecDml example_Sqlite3Statement None)))
   \<and> fst (snd (MariaStatement_ExecQuery example_MariaStatement None)) = example_MariaStatement"
proof -
  have h: "ss_db example_Sqlite3Statement = Some example_sqlite3"
    "ss_stmt example_Sqlite3Statement = Some example_sqlite3_stmt"
    "Sqlite3Statement_Valid example_Sqlite3Statement"
    by (simp_all add: example_Sqlite3Statement_def Sqlite3Statement_ctor_def
          Sqlite3Statement_Valid_def)
  show ?thesis
    using h example_sqlite3_first_step
      ExecQuery_consumes_on_embedded_only [of example_Sqlite3Statement example_sqlite3
        example_sqlite3_stmt None example_MariaStatement]
    by (simp add: SQLITE_ROW_def SQLITE_DONE_def)
qed

text \<open>
  The claim as written fails on the client/server backend: the example statement
  executes successfully, and after \<open>ExecQuery\<close> it is still valid while the returned
  cursor holds no result.
\<close>

theorem MariaStatement_ExecQuery_keeps_handle_counterexample:
  "MariaStatement_Valid (fst (snd (MariaStatement_ExecQuery example_MariaStatement None)))
   \<and> mq_res (fst (MariaStatement_ExecQuery example_MariaStatement None)) = None
   \<and> mysql_stmt_execute example_mysql_stmt = 0"
  by (simp add: MariaStatement_ExecQuery_def example_MariaStatement_def MariaStatement_ctor_def
        MariaStatement_default_def MariaStatement_Valid_def example_mysql_stmt_def
        MariaQuery_default_def)

section \<open>Binding a parameter at a position out of range\<close>

lemma MariaStatement_invalid_param_binds:
  assumes "\<not> MariaStatement_ValidParam m (param - 1)"
  shows "MariaStatement_Bind_text m param t = (Make kRange (Some ''param out of range''), m)"
    and "MariaStatement_Bind_int m param i = Some (Make kRange (Some ''param out of range''), m)"
    and "MariaStatement_Bind_int64 m param l = Some (Make kRange (Some ''param out of range''), m)"
    and "MariaStatement_Bind_double m param d = Some (Make kRange (Some ''param out of range''), m)"
    and "MariaStatement_Bind_blob m param b len = (Make kRange (Some ''param out of range''), m)"
    and "MariaStatement_BindNull m param = (Make kRange (Some ''param out of range''), m)"
  using assms
  by (simp_all add: MariaStatement_Bind_text_def MariaStatement_Bind_int_def
        MariaStatement_Bind_int64_def MariaStatement_Bind_double_def
        MariaStatement_Bind_blob_def MariaStatement_BindNull_def)

lemma MariaStatement_ValidParam_range:
  "param - 1 < 0 \<or> ms_num_params m \<le> param - 1 \<Longrightarrow> \<not> MariaStatement_ValidParam m (param - 1)"
  by (auto simp: MariaStatement_ValidParam_def)

lemma Sqlite3Statement_bind_call_out_of_range:
  assumes "ss_stmt s = Some stmt"
    and "param - 1 < 0 \<or> int (length (bindings stmt)) \<le> param - 1"
  shows "Sqlite3Statement_bind_call s param v msg = (Make kError (Some msg), s)"
proof -
  have "sqlite3_bind stmt param v = (SQLITE_RANGE, stmt)"
    using assms(2) by (auto simp: sqlite3_bind_def)
  moreover have "s\<lparr>ss_stmt := Some stmt\<rparr> = s"
    using assms(1) by simp
  ultimately show ?thesis
    using assms(1)
    by (simp add: Sqlite3Statement_bind_call_def SQLITE_RANGE_def SQLITE_OK_def)
qed

lemma Sqlite3Statement_bind_call_never_kRange:
  "code (fst (Sqlite3Statement_bind_call s param v msg)) \<noteq> kRange"
  by (auto simp: Sqlite3Statement_bind_call_def Make_code Error_Ok_def Error_default_def
           split: option.splits prod.splits)

text \<open>
  C3, as the code has it. On the client/server backend each of the six bind forms, at a
  1-based position whose index \<open>param - 1\<close> lies outside \<open>[0, num_params_)\<close>, returns
  an error of kind \<open>kRange\<close> and leaves the statement exactly as it was. On the embedded
  backend the wrapper does not check the position: the engine refuses it, every bind form
  reports the refusal as \<open>kError\<close> (the generic failure, never \<open>kRange\<close>), and the
  statement is left as it was.
\<close>

theorem Bind_out_of_range:
  "(param - 1 < 0 \<or> ms_num_params m \<le> param - 1 \<longrightarrow>
      MariaStatement_Bind_text m param t = (Make kRange (Some ''param out of range''), m)
    \<and> MariaStatement_Bind_int m param i = Some (Make kRange (Some ''param out of range''), m)
    \<and> MariaStatement_Bind_int64 m param l = Some (Make kRange (Some ''param out of range''), m)
    \<and> MariaStatement_Bind_double m param d = Some (Make kRange (Some ''param out of range''), m)
    \<and> MariaStatement_Bind_blob m param b len = (Make kRange (Some ''param out of range''), m)
    \<and> MariaStatement_BindNull m param = (Make kRange (Some ''param out of range''), m)
    \<and> code (Make kRange (Some ''param out of range'')) = kRange)
   \<and> (ss_stmt s = Some stmt \<and> (param - 1 < 0 \<or> int (length (bindings stmt)) \<le> param - 1) \<longrightarrow>
      Sqlite3Statement_Bind_text s param t = (Make kError (Some ''bind text failed''), s)
    \<and> Sqlite3Statement_Bind_int s param i = (Make kError (Some ''bind int failed''), s)
    \<and> Sqlite3Statement_Bind_int64 s param l = (Make kError (Some ''bind int64 failed''), s)
    \<and> Sqlite3Statement_Bind_double s param d = (Make kError (Some ''bind double failed''), s)
    \<and> Sqlite3Statement_Bind_blob s param b len = (Make kError (Some ''bind blob failed''), s)
    \<and> Sqlite3Statement_BindNull s param = (Make kError (Some ''bind null failed''), s)
    \<and> code (Make kError (Some ''bind int failed'')) = kError)"
proof (intro conjI impI)
  assume "param - 1 < 0 \<or> ms_num_params m \<le> param - 1"
  then have inv: "\<not> MariaStatement_ValidParam m (param - 1)"
    by (rule MariaStatement_ValidParam_range)
  show "MariaStatement_Bind_text m param t = (Make kRange (Some ''param out of range''), m)"
    "MariaStatement_Bind_int m param i = Some (Make kRange (Some ''param out of range''), m)"
    "MariaStatement_Bind_int64 m param l = Some (Make kRange (Some ''param out of range''), m)"
    "MariaStatement_Bind_double m param d = Some (Make kRange (Some ''param out of range''), m)"
    "MariaStatement_Bind_blob m param b len = (Make kRange (Some ''param out of range''), m)"
    "MariaStatement_BindNull m param = (Make kRange (Some ''param out of range''), m)"
    by (rule MariaStatement_invalid_param_binds [OF inv])+
  show "code (Make kRange (Some ''param out of range'')) = kRange"
    by (rule Make_code)
next
  assume a: "ss_stmt s = Some stmt \<and> (param - 1 < 0 \<or> int (length (bindings stmt)) \<le> param - 1)"
  note r = Sqlite3Statement_bind_call_out_of_range [OF conjunct1 [OF a] conjunct2 [OF a]]
  show "Sqlite3Statement_Bind_text s param t = (Make kError (Some ''bind text failed''), s)"
    by (simp add: Sqlite3Statement_Bind_text_def r)
  show "Sqlite3Statement_Bind_int s param i = (Make kError (Some ''bind int failed''), s)"
    by (simp add: Sqlite3Statement_Bind_int_def r)
  show "Sqlite3Statement_Bind_int64 s param l = (Make kError (Some ''bind int64 failed''), s)"
    by (simp add: Sqlite3Statement_Bind_int64_def r)
  show "Sqlite3Statement_Bind_double s param d = (Make kError (Some ''bind double failed''), s)"
    by (simp add: Sqlite3Statement_Bind_double_def r)
  show "Sqlite3Statement_Bind_blob s param b len = (Make kError (Some ''bind blob failed''), s)"
    by (simp add: Sqlite3Statement_Bind_blob_def r)
  show "Sqlite3Statement_BindNull s param = (Make kError (Some ''bind null failed''), s)"
    by (simp add: Sqlite3Statement_BindNull_def r)
  show "code (Make kError (Some ''bind int failed'')) = kError"
    by (rule Make_code)
qed

lemma example_MariaStatement_fields:
  "ms_conn example_MariaStatement = Some example_mysql"
  "ms_stmt example_MariaStatement = Some example_mysql_stmt"
  "ms_binds example_MariaStatement = Some [MYSQL_BIND_zero]"
  "ms_int_storage example_MariaStatement = Some [0]"
  "ms_int64_storage example_MariaStatement = Some [0]"
  "ms_double_storage example_MariaStatement = Some [DoubleBits 0]"
  "ms_num_params example_MariaStatement = 1"
  by (simp_all add: example_MariaStatement_def MariaStatement_ctor_def MariaStatement_default_def
        example_mysql_stmt_def)

lemma example_Sqlite3Statement_fields:
  "ss_db example_Sqlite3Statement = Some example_sqlite3"
  "ss_stmt example_Sqlite3Statement = Some example_sqlite3_stmt"
  by (simp_all add: example_Sqlite3Statement_def Sqlite3Statement_ctor_def)

theorem Bind_out_of_range_witness:
  "((2::int) - 1 < 0 \<or> ms_num_params example_MariaStatement \<le> 2 - 1)
   \<and> ss_stmt example_Sqlite3Statement = Some example_sqlite3_stmt
   \<and> ((2::int) - 1 < 0 \<or> int (length (bindings example_sqlite3_stmt)) \<le> 2 - 1)
   \<and> code (the (map_option fst (MariaStatement_Bind_int example_MariaStatement 2 42))) = kRange
   \<and> map_option snd (MariaStatement_Bind_int example_MariaStatement 2 42)
       = Some example_MariaStatement
   \<and> code (fst (Sqlite3Statement_Bind_int example_Sqlite3Statement 2 42)) = kError
   \<and> snd (Sqlite3Statement_Bind_int example_Sqlite3Statement 2 42) = example_Sqlite3Statement"
  using Bind_out_of_range [of 2 example_MariaStatement _ 42 _ _ _ _ example_Sqlite3Statement
      example_sqlite3_stmt]
    example_MariaStatement_fields example_Sqlite3Statement_fields
  by (simp add: example_sqlite3_stmt_def)

text \<open>
  The claim as written fails on the embedded backend: binding position 2 of a
  one-parameter statement is reported as \<open>kError\<close>, not as \<open>kRange\<close>.
\<close>

theorem Sqlite3Statement_Bind_out_of_range_counterexample:
  "code (fst (Sqlite3Statement_Bind_int example_Sqlite3Statement 2 42)) = kError
   \<and> length (bindings example_sqlite3_stmt) = 1"
  by (simp add: Sqlite3Statement_Bind_int_def Sqlite3Statement_bind_call_def
        example_Sqlite3Statement_fields sqlite3_bind_def example_sqlite3_stmt_def
        SQLITE_RANGE_def SQLITE_OK_def Make_code)

section \<open>Reset\<close>






lemma example_Maria_bound:
  "MariaStatement_Bind_int example_MariaStatement 1 42
     = Some (Error_Ok,
             example_MariaStatement
               \<lparr>ms_binds := Some [MYSQL_BIND_zero\<lparr>buffer_type := MYSQL_TYPE_LONG,
                                                 buffer := Int32Cell 0\<rparr>],
                ms_int_storage := Some [42]\<rparr>)"
  by (simp add: MariaStatement_Bind_int_def MariaStatement_ValidParam_def
        MariaStatement_StoreInt32_def set_bind_def update_bind_def example_MariaStatement_fields
        MYSQL_BIND_zero_def)



section \<open>The prepared query path of the client/server backend\<close>

lemma MariaStatement_ExecQuery_select:
  assumes "ms_stmt m = Some st" and "ms_conn m = Some conn"
    and "mysql_stmt_result_metadata st = Some meta"
    and "ms_num_params m > 0 \<and> ms_binds m \<noteq> None \<longrightarrow> mysql_stmt_bind_param st = 0"
    and "mysql_stmt_execute st = 0" and "mysql_stmt_store_result st = 0"
  shows "MariaStatement_ExecQuery m out_error
           = (MariaQuery_default, m,
              report out_error kError
                (Some ''Prepared SELECT not yet supported, use Db::ExecQuery''))"
  using assms by (auto simp: MariaStatement_ExecQuery_def)

lemma MariaStatement_ExecQuery_always_kError:
  assumes "ms_stmt m = Some st" and "ms_conn m = Some conn"
  shows "map_option code (snd (snd (MariaStatement_ExecQuery m (Some e)))) = Some kError"
  using assms
  by (simp add: MariaStatement_ExecQuery_def report_def Set_code split: option.splits)

lemma MariaStatement_ExecQuery_native_failure:
  assumes "ms_stmt m = Some st" and "ms_conn m = Some conn"
    and "mysql_stmt_result_metadata st = Some meta"
    and "(ms_num_params m > 0 \<and> ms_binds m \<noteq> None \<and> mysql_stmt_bind_param st \<noteq> 0)
         \<or> mysql_stmt_execute st \<noteq> 0 \<or> mysql_stmt_store_result st \<noteq> 0"
  shows "MariaStatement_ExecQuery m out_error
           = (MariaQuery_default, m, report out_error kError (Some (mysql_stmt_error st)))"
  using assms by (auto simp: MariaStatement_ExecQuery_def)

lemma long_message_c_str:
  "c_str ''Prepared SELECT not yet supported, use Db::ExecQuery''
     = ''Prepared SELECT not yet supported, use Db::ExecQuery''"
  by (simp add: c_str_def NUL_def)

text \<open>
  C9, as the code has it. For a client/server statement that holds its handle and its
  connection and whose SQL has result metadata, \<open>ExecQuery\<close> always returns the empty
  cursor, leaves the statement as it was and reports \<open>kError\<close>; when binding, executing
  and storing the result succeed, the message reported is
  \<open>Prepared SELECT not yet supported, use Db::ExecQuery\<close>; when binding (attempted only
  when the statement has parameters and a bind array), executing or storing the result
  fails, the message reported is the engine's \<open>mysql_stmt_error\<close> text, cut to the 255
  bytes an \<open>Error\<close> holds.
\<close>

theorem MariaStatement_ExecQuery_prepared_select:
  "(ms_stmt m = Some st \<and> ms_conn m = Some conn \<longrightarrow>
      fst (MariaStatement_ExecQuery m (Some e)) = MariaQuery_default
    \<and> fst (snd (MariaStatement_ExecQuery m (Some e))) = m
    \<and> map_option code (snd (snd (MariaStatement_ExecQuery m (Some e)))) = Some kError)
   \<and> (ms_stmt m = Some st \<and> ms_conn m = Some conn
        \<and> mysql_stmt_result_metadata st = Some meta
        \<and> (ms_num_params m > 0 \<and> ms_binds m \<noteq> None \<longrightarrow> mysql_stmt_bind_param st = 0)
        \<and> mysql_stmt_execute st = 0
        \<and> mysql_stmt_store_result st = 0 \<and> length (message e) = kMaxMessageLen \<longrightarrow>
      map_option (\<lambda>r. c_str (message r)) (snd (snd (MariaStatement_ExecQuery m (Some e))))
        = Some ''Prepared SELECT not yet supported, use Db::ExecQuery'')
   \<and> (ms_stmt m = Some st \<and> ms_conn m = Some conn
        \<and> mysql_stmt_result_metadata st = Some meta
        \<and> ((ms_num_params m > 0 \<and> ms_binds m \<noteq> None \<and> mysql_stmt_bind_param st \<noteq> 0)
             \<or> mysql_stmt_execute st \<noteq> 0 \<or> mysql_stmt_store_result st \<noteq> 0)
        \<and> length (message e) = kMaxMessageLen \<longrightarrow>
      map_option (\<lambda>r. c_str (message r)) (snd (snd (MariaStatement_ExecQuery m (Some e))))
        = Some (take (kMaxMessageLen - 1) (c_str (mysql_stmt_error st))))"
proof (intro conjI impI)
  assume a: "ms_stmt m = Some st \<and> ms_conn m = Some conn"
  show "fst (MariaStatement_ExecQuery m (Some e)) = MariaQuery_default"
    "fst (snd (MariaStatement_ExecQuery m (Some e))) = m"
    using MariaStatement_ExecQuery_never_transfers [of m "Some e"] by simp_all
  show "map_option code (snd (snd (MariaStatement_ExecQuery m (Some e)))) = Some kError"
    using a MariaStatement_ExecQuery_always_kError by blast
next
  assume a: "ms_stmt m = Some st \<and> ms_conn m = Some conn
        \<and> mysql_stmt_result_metadata st = Some meta
        \<and> (ms_num_params m > 0 \<and> ms_binds m \<noteq> None \<longrightarrow> mysql_stmt_bind_param st = 0)
        \<and> mysql_stmt_execute st = 0
        \<and> mysql_stmt_store_result st = 0 \<and> length (message e) = kMaxMessageLen"
  then have "MariaStatement_ExecQuery m (Some e)
           = (MariaQuery_default, m,
              report (Some e) kError
                (Some ''Prepared SELECT not yet supported, use Db::ExecQuery''))"
    using MariaStatement_ExecQuery_select [of m st conn meta "Some e"] by blast
  moreover have "c_str (message (Set e kError
                    (Some ''Prepared SELECT not yet supported, use Db::ExecQuery'')))
                 = ''Prepared SELECT not yet supported, use Db::ExecQuery''"
    using a Set_c_str [of e kError "Some ''Prepared SELECT not yet supported, use Db::ExecQuery''"]
    by (simp add: long_message_c_str kMaxMessageLen_def)
  ultimately show "map_option (\<lambda>r. c_str (message r))
        (snd (snd (MariaStatement_ExecQuery m (Some e))))
        = Some ''Prepared SELECT not yet supported, use Db::ExecQuery''"
    by (simp add: report_def)
next
  assume a: "ms_stmt m = Some st \<and> ms_conn m = Some conn
        \<and> mysql_stmt_result_metadata st = Some meta
        \<and> ((ms_num_params m > 0 \<and> ms_binds m \<noteq> None \<and> mysql_stmt_bind_param st \<noteq> 0)
             \<or> mysql_stmt_execute st \<noteq> 0 \<or> mysql_stmt_store_result st \<noteq> 0)
        \<and> length (message e) = kMaxMessageLen"
  then have "MariaStatement_ExecQuery m (Some e)
           = (MariaQuery_default, m, report (Some e) kError (Some (mysql_stmt_error st)))"
    using MariaStatement_ExecQuery_native_failure [of m st conn meta "Some e"] by blast
  moreover have "c_str (message (Set e kError (Some (mysql_stmt_error st))))
                 = take (kMaxMessageLen - 1) (c_str (mysql_stmt_error st))"
    using a Set_c_str [of e kError "Some (mysql_stmt_error st)"] by simp
  ultimately show "map_option (\<lambda>r. c_str (message r))
        (snd (snd (MariaStatement_ExecQuery m (Some e))))
        = Some (take (kMaxMessageLen - 1) (c_str (mysql_stmt_error st)))"
    by (simp add: report_def)
qed

theorem MariaStatement_ExecQuery_prepared_select_witness:
  "ms_stmt example_MariaStatement = Some example_mysql_stmt
   \<and> ms_conn example_MariaStatement = Some example_mysql
   \<and> mysql_stmt_result_metadata example_mysql_stmt = Some example_res
   \<and> mysql_stmt_bind_param example_mysql_stmt = 0 \<and> mysql_stmt_execute example_mysql_stmt = 0
   \<and> mysql_stmt_store_result example_mysql_stmt = 0
   \<and> length (message Error_default) = kMaxMessageLen
   \<and> fst (MariaStatement_ExecQuery example_MariaStatement (Some Error_default)) = MariaQuery_default
   \<and> map_option code (snd (snd (MariaStatement_ExecQuery example_MariaStatement (Some Error_default))))
       = Some kError
   \<and> map_option (\<lambda>r. c_str (message r))
        (snd (snd (MariaStatement_ExecQuery example_MariaStatement (Some Error_default))))
       = Some ''Prepared SELECT not yet supported, use Db::ExecQuery''
   \<and> ms_stmt example_MariaStatement_failing = Some example_mysql_stmt_failing
   \<and> ms_conn example_MariaStatement_failing = Some example_mysql
   \<and> mysql_stmt_result_metadata example_mysql_stmt_failing = Some example_res
   \<and> mysql_stmt_execute example_mysql_stmt_failing \<noteq> 0
   \<and> mysql_stmt_error example_mysql_stmt_failing = ''Lost connection''
   \<and> fst (MariaStatement_ExecQuery example_MariaStatement_failing (Some Error_default))
       = MariaQuery_default
   \<and> map_option code
        (snd (snd (MariaStatement_ExecQuery example_MariaStatement_failing (Some Error_default))))
       = Some kError
   \<and> map_option (\<lambda>r. c_str (message r))
        (snd (snd (MariaStatement_ExecQuery example_MariaStatement_failing (Some Error_default))))
       = Some ''Lost connection''"
proof -
  have failing: "ms_stmt example_MariaStatement_failing = Some example_mysql_stmt_failing"
    "ms_conn example_MariaStatement_failing = Some example_mysql"
    "mysql_stmt_result_metadata example_mysql_stmt_failing = Some example_res"
    "mysql_stmt_execute example_mysql_stmt_failing \<noteq> 0"
    "mysql_stmt_error example_mysql_stmt_failing = ''Lost connection''"
    by (simp_all add: example_MariaStatement_failing_def MariaStatement_ctor_def
          MariaStatement_default_def example_mysql_stmt_failing_def example_mysql_stmt_def)
  have cut: "take (kMaxMessageLen - 1) (c_str ''Lost connection'') = ''Lost connection''"
    by (simp add: kMaxMessageLen_def c_str_def NUL_def)
  have len: "length (message Error_default) = kMaxMessageLen"
    by (simp add: Error_default_def)
  show ?thesis
    using MariaStatement_ExecQuery_prepared_select [of example_MariaStatement example_mysql_stmt
        example_mysql Error_default example_res]
      MariaStatement_ExecQuery_prepared_select [of example_MariaStatement_failing
        example_mysql_stmt_failing example_mysql Error_default example_res]
      example_MariaStatement_fields failing cut len
    by (simp add: example_mysql_stmt_def)
qed

text \<open>
  The claim as written fails when the engine refuses to execute the statement: the
  statement has result metadata, and the message reported is the engine's, not the
  direction to the non-prepared path.
\<close>

theorem MariaStatement_ExecQuery_engine_failure_counterexample:
  "mysql_stmt_result_metadata example_mysql_stmt_failing = Some example_res
   \<and> MariaStatement_Valid
        (MariaStatement_ctor (Some example_mysql) (Some example_mysql_stmt_failing))
   \<and> c_str (message (the (snd (snd (MariaStatement_ExecQuery
                     (MariaStatement_ctor (Some example_mysql) (Some example_mysql_stmt_failing))
                     (Some Error_default))))))
       = ''Lost connection''"
proof -
  have "c_str (message (Set Error_default kError (Some ''Lost connection'')))
          = ''Lost connection''"
    using Set_c_str [of Error_default kError "Some ''Lost connection''"]
    by (simp add: Error_default_def kMaxMessageLen_def c_str_def NUL_def)
  then show ?thesis
    by (simp add: MariaStatement_ExecQuery_def MariaStatement_ctor_def MariaStatement_default_def
          example_mysql_stmt_failing_def example_mysql_stmt_def report_def
          MariaStatement_Valid_def)
qed

section \<open>Moving a client/server statement\<close>

text \<open>
  The seven other move-only classes hand over every member: the destination of a move
  is the source as it was, and the source is left as a default-constructed object.
\<close>

lemma moves_of_the_other_classes:
  "Sqlite3Db_move d = (d, Sqlite3Db_default)"
  "Sqlite3Db_move_assign d' d = (d, Sqlite3Db_default)"
  "Sqlite3Statement_move s = (s, Sqlite3Statement_default)"
  "Sqlite3Statement_move_assign s' s = (s, Sqlite3Statement_default)"
  "Sqlite3Query_move q = (q, Sqlite3Query_default)"
  "Sqlite3Query_move_assign q' q = (q, Sqlite3Query_default)"
  "Sqlite3ResultSet_move r = (r, Sqlite3ResultSet_default)"
  "Sqlite3ResultSet_move_assign r' r = (r, Sqlite3ResultSet_default)"
  "MariaDb_move md = (md, MariaDb_default)"
  "MariaDb_move_assign md' md = (md, MariaDb_default)"
  "MariaQuery_move mq = (mq, MariaQuery_default)"
  "MariaQuery_move_assign mq' mq = (mq, MariaQuery_default)"
  "MariaResultSet_move mr = (mr, MariaResultSet_default)"
  "MariaResultSet_move_assign mr' mr = (mr, MariaResultSet_default)"
  by (simp_all add: Sqlite3Db_move_def Sqlite3Db_move_assign_def Sqlite3Db_Close_def
        Sqlite3Db_default_def Sqlite3Statement_move_def Sqlite3Statement_move_assign_def
        Sqlite3Statement_Finalize_def Sqlite3Statement_default_def Sqlite3Query_move_def
        Sqlite3Query_move_assign_def Sqlite3Query_Finalize_def Sqlite3Query_default_def
        Sqlite3ResultSet_move_def Sqlite3ResultSet_move_assign_def Sqlite3ResultSet_Finalize_def
        Sqlite3ResultSet_default_def MariaDb_move_def MariaDb_move_assign_def MariaDb_Close_def
        MariaDb_default_def MariaQuery_move_def MariaQuery_move_assign_def MariaQuery_Finalize_def
        MariaQuery_default_def MariaResultSet_move_def MariaResultSet_move_assign_def
        MariaResultSet_Finalize_def MariaResultSet_default_def)

text \<open>
  C2 at a statement with one parameter. Before the move an integer can be bound at
  position 1. The move constructor hands over the handle, the descriptors and the
  parameter count, but not the three storage arrays: the source keeps them, the
  destination has none, and binding an integer through the destination writes through
  a null pointer. The move assignment does the same.
\<close>

theorem MariaStatement_move_drops_storage:
  "MariaStatement_Bind_int example_MariaStatement 1 42 \<noteq> None
   \<and> MariaStatement_Valid (fst (MariaStatement_move example_MariaStatement))
   \<and> ms_num_params (fst (MariaStatement_move example_MariaStatement)) = 1
   \<and> ms_binds (fst (MariaStatement_move example_MariaStatement)) = Some [MYSQL_BIND_zero]
   \<and> ms_int_storage (fst (MariaStatement_move example_MariaStatement)) = None
   \<and> ms_int64_storage (fst (MariaStatement_move example_MariaStatement)) = None
   \<and> ms_double_storage (fst (MariaStatement_move example_MariaStatement)) = None
   \<and> MariaStatement_Bind_int (fst (MariaStatement_move example_MariaStatement)) 1 42 = None
   \<and> ms_int_storage (snd (MariaStatement_move example_MariaStatement)) = Some [0]
   \<and> ms_int64_storage (snd (MariaStatement_move example_MariaStatement)) = Some [0]
   \<and> ms_double_storage (snd (MariaStatement_move example_MariaStatement)) = Some [DoubleBits 0]
   \<and> ms_int_storage (fst (MariaStatement_move_assign MariaStatement_default example_MariaStatement))
       = None
   \<and> MariaStatement_Bind_int
        (fst (MariaStatement_move_assign MariaStatement_default example_MariaStatement)) 1 42 = None
   \<and> ms_int_storage (snd (MariaStatement_move_assign MariaStatement_default example_MariaStatement))
       = Some [0]"
  by (simp add: example_Maria_bound MariaStatement_move_def MariaStatement_move_assign_def
        MariaStatement_Finalize_def MariaStatement_default_def example_MariaStatement_fields
        MariaStatement_Valid_def MariaStatement_Bind_int_def MariaStatement_ValidParam_def
        MariaStatement_StoreInt32_def set_bind_def)

section \<open>Forward cursors reach end-of-stream after exactly the rows of the result\<close>

lemma Sqlite3Query_eof_stays: "sq_eof q \<Longrightarrow> sq_eof ((Sqlite3Query_NextRow ^^ k) q)"
proof (induction k)
  case 0
  then show ?case by simp
next
  case (Suc k)
  then show ?case
    by (auto simp: Sqlite3Query_NextRow_def split: option.splits prod.splits)
qed

lemma Sqlite3Query_rows_then_done:
  assumes "sq_stmt q = Some s" and "upcoming s = map StepRow rs @ StepDone # rest"
    and "\<not> sq_eof q"
  shows "sq_eof ((Sqlite3Query_NextRow ^^ k) q) = (length rs < k)"
  using assms
proof (induction rs arbitrary: q s k)
  case Nil
  show ?case
  proof (cases k)
    case 0
    then show ?thesis using Nil by simp
  next
    case (Suc j)
    have "sq_eof (Sqlite3Query_NextRow q)"
      using Nil by (simp add: Sqlite3Query_NextRow_def sqlite3_step_def)
    then have "sq_eof ((Sqlite3Query_NextRow ^^ j) (Sqlite3Query_NextRow q))"
      by (rule Sqlite3Query_eof_stays)
    then show ?thesis using Suc by (simp add: funpow_swap1)
  qed
next
  case (Cons r rs)
  show ?case
  proof (cases k)
    case 0
    then show ?thesis using Cons.prems by simp
  next
    case (Suc j)
    let ?s' = "s\<lparr>upcoming := map StepRow rs @ StepDone # rest, current_row := r,
                  last_step := SQLITE_ROW\<rparr>"
    have step: "Sqlite3Query_NextRow q = q\<lparr>sq_stmt := Some ?s'\<rparr>"
      using Cons.prems
      by (simp add: Sqlite3Query_NextRow_def sqlite3_step_def SQLITE_ROW_def SQLITE_DONE_def)
    have "sq_eof ((Sqlite3Query_NextRow ^^ j) (q\<lparr>sq_stmt := Some ?s'\<rparr>)) = (length rs < j)"
      by (rule Cons.IH [of _ ?s']) (use Cons.prems in simp_all)
    then show ?thesis using Suc step by (simp add: funpow_swap1)
  qed
qed

lemma sqlite3_first_step_of_rows:
  assumes "upcoming stmt = map StepRow rows @ StepDone # rest"
  shows "(rows = [] \<longrightarrow> fst (sqlite3_step stmt) = SQLITE_DONE)
       \<and> (rows \<noteq> [] \<longrightarrow> fst (sqlite3_step stmt) = SQLITE_ROW
            \<and> upcoming (snd (sqlite3_step stmt)) = map StepRow (tl rows) @ StepDone # rest)"
  using assms by (cases rows) (simp_all add: sqlite3_step_def)

lemma Sqlite3Query_fresh_cursor:
  assumes "upcoming stmt = map StepRow rows @ StepDone # rest"
  shows "sq_eof ((Sqlite3Query_NextRow ^^ k)
           (Sqlite3Query_ctor db (Some (snd (sqlite3_step stmt)))
              (fst (sqlite3_step stmt) = SQLITE_DONE)))
         = (length rows \<le> k)"
proof (cases rows)
  case Nil
  then have "fst (sqlite3_step stmt) = SQLITE_DONE"
    using sqlite3_first_step_of_rows [OF assms] by simp
  then show ?thesis
    using Nil Sqlite3Query_eof_stays [of _ k] by (simp add: Sqlite3Query_ctor_def)
next
  case (Cons r rs)
  then have st: "fst (sqlite3_step stmt) = SQLITE_ROW"
    "upcoming (snd (sqlite3_step stmt)) = map StepRow rs @ StepDone # rest"
    using sqlite3_first_step_of_rows [OF assms] by simp_all
  let ?q = "Sqlite3Query_ctor db (Some (snd (sqlite3_step stmt))) False"
  have "sq_eof ((Sqlite3Query_NextRow ^^ k) ?q) = (length rs < k)"
    by (rule Sqlite3Query_rows_then_done [of _ "snd (sqlite3_step stmt)" _ rest])
       (simp_all add: Sqlite3Query_ctor_def st)
  then show ?thesis
    using Cons st by (auto simp: SQLITE_ROW_def SQLITE_DONE_def)
qed

lemma Sqlite3Db_ExecQuery_cursor:
  assumes "sd_db d = Some db" and "prepare_v2 db (c_str text) = (SQLITE_OK, Some stmt)"
    and "fst (sqlite3_step stmt) = SQLITE_ROW \<or> fst (sqlite3_step stmt) = SQLITE_DONE"
  shows "fst (Sqlite3Db_ExecQuery d (Some text) err)
           = Sqlite3Query_ctor (Some db) (Some (snd (sqlite3_step stmt)))
               (fst (sqlite3_step stmt) = SQLITE_DONE)"
  using assms
  by (auto simp: Sqlite3Db_ExecQuery_def Sqlite3Db_Compile_def SQLITE_ROW_def SQLITE_DONE_def
           split: prod.splits)

lemma MariaQuery_eof_stays: "mq_eof q \<Longrightarrow> mq_eof ((MariaQuery_NextRow ^^ k) q)"
proof (induction k)
  case 0
  then show ?case by simp
next
  case (Suc k)
  then show ?case
    by (auto simp: MariaQuery_NextRow_def split: option.splits prod.splits)
qed

lemma MariaQuery_remaining_rows:
  assumes "mq_res q = Some r" and "\<not> mq_eof q"
  shows "mq_eof ((MariaQuery_NextRow ^^ k) q) = (length (res_rows r) - res_pos r < k)"
  using assms
proof (induction k arbitrary: q r)
  case 0
  then show ?case by simp
next
  case (Suc k)
  show ?case
  proof (cases "res_pos r < length (res_rows r)")
    case True
    let ?q' = "MariaQuery_NextRow q"
    have q': "mq_res ?q' = Some (r\<lparr>res_pos := Suc (res_pos r)\<rparr>)" "\<not> mq_eof ?q'"
      using Suc.prems True by (simp_all add: MariaQuery_NextRow_def mysql_fetch_row_def)
    have "mq_eof ((MariaQuery_NextRow ^^ k) ?q')
            = (length (res_rows (r\<lparr>res_pos := Suc (res_pos r)\<rparr>))
                 - res_pos (r\<lparr>res_pos := Suc (res_pos r)\<rparr>) < k)"
      by (rule Suc.IH [OF q'])
    then show ?thesis using True by (auto simp: funpow_swap1)
  next
    case False
    have "mq_eof (MariaQuery_NextRow q)"
      using Suc.prems False by (simp add: MariaQuery_NextRow_def mysql_fetch_row_def)
    then have "mq_eof ((MariaQuery_NextRow ^^ k) (MariaQuery_NextRow q))"
      by (rule MariaQuery_eof_stays)
    then show ?thesis using False by (simp add: funpow_swap1)
  qed
qed

lemma mysql_num_rows_zero:
  "length (res_rows res) < 2 ^ 64 \<Longrightarrow> (mysql_num_rows res = 0) = (res_rows res = [])"
proof -
  assume "length (res_rows res) < 2 ^ 64"
  then have "unat (of_nat (length (res_rows res)) :: 64 word) = length (res_rows res)"
    by (simp add: unat_of_nat)
  then show ?thesis
    by (metis length_0_conv mysql_num_rows_def of_nat_0_eq_iff unat_0 semiring_1_class.of_nat_0)
qed

lemma MariaQuery_fresh_cursor:
  assumes "res_pos res = 0" and "length (res_rows res) < 2 ^ 64"
  shows "mq_eof ((MariaQuery_NextRow ^^ k) (MariaQuery_ctor (Some res) (mysql_num_rows res = 0)))
         = (length (res_rows res) \<le> k)"
proof (cases "res_rows res = []")
  case True
  then have "mq_eof (MariaQuery_ctor (Some res) (mysql_num_rows res = 0))"
    using mysql_num_rows_zero [OF assms(2)] by (simp add: MariaQuery_ctor_def MariaQuery_default_def)
  then show ?thesis using True MariaQuery_eof_stays by simp
next
  case False
  let ?q = "MariaQuery_ctor (Some res) (mysql_num_rows res = 0)"
  have nz: "mysql_num_rows res \<noteq> 0"
    using False mysql_num_rows_zero [OF assms(2)] by simp
  have pos: "res_pos res < length (res_rows res)"
    using False assms(1) by simp
  have q: "mq_res ?q = Some (res\<lparr>res_pos := Suc 0\<rparr>)" "\<not> mq_eof ?q"
    using nz pos assms(1)
    by (simp_all add: MariaQuery_ctor_def MariaQuery_default_def mysql_fetch_row_def)
  have "mq_eof ((MariaQuery_NextRow ^^ k) ?q)
          = (length (res_rows (res\<lparr>res_pos := Suc 0\<rparr>)) - res_pos (res\<lparr>res_pos := Suc 0\<rparr>) < k)"
    by (rule MariaQuery_remaining_rows [OF q])
  then show ?thesis using False by (cases "res_rows res") auto
qed

lemma MariaDb_ExecQuery_cursor:
  assumes "md_conn m = Some conn" and "reply_status (mysql_query conn (c_str text)) = 0"
    and "reply_result (mysql_query conn (c_str text)) = Some res"
  shows "fst (MariaDb_ExecQuery m (Some text) err)
           = MariaQuery_ctor (Some res) (mysql_num_rows res = 0)"
  using assms by (simp add: MariaDb_ExecQuery_def Let_def)

text \<open>
  C7. A cursor made by \<open>Sqlite3Db::ExecQuery\<close>, by \<open>Sqlite3Statement::ExecQuery\<close> or
  by \<open>MariaDb::ExecQuery\<close> over a result of \<open>R\<close> rows (the engine's steps report the
  rows and then completion; the stored result holds the rows) is at end-of-stream after
  \<open>k\<close> calls of \<open>NextRow\<close> exactly when \<open>R \<le> k\<close>: at once for an empty result, and
  for \<open>R > 0\<close> not before the \<open>R\<close>-th call, at the \<open>R\<close>-th call, and ever after.
\<close>

theorem forward_cursor_eof_after_R_rows:
  "(sd_db d = Some db \<and> prepare_v2 db (c_str query) = (SQLITE_OK, Some stmt)
      \<and> upcoming stmt = map StepRow rows @ StepDone # rest \<longrightarrow>
    (\<forall>k. Sqlite3Query_Eof ((Sqlite3Query_NextRow ^^ k) (fst (Sqlite3Db_ExecQuery d (Some query) err)))
           = (length rows \<le> k)))
   \<and> (ss_db s = Some db \<and> ss_stmt s = Some stmt
      \<and> upcoming stmt = map StepRow rows @ StepDone # rest \<longrightarrow>
    (\<forall>k. Sqlite3Query_Eof ((Sqlite3Query_NextRow ^^ k) (fst (Sqlite3Statement_ExecQuery s err)))
           = (length rows \<le> k)))
   \<and> (md_conn m = Some conn \<and> reply_status (mysql_query conn (c_str query)) = 0
      \<and> reply_result (mysql_query conn (c_str query)) = Some res
      \<and> res_pos res = 0 \<and> length (res_rows res) < 2 ^ 64 \<longrightarrow>
    (\<forall>k. MariaQuery_Eof ((MariaQuery_NextRow ^^ k) (fst (MariaDb_ExecQuery m (Some query) err)))
           = (length (res_rows res) \<le> k)))"
proof (intro conjI impI allI)
  fix k
  assume a: "sd_db d = Some db \<and> prepare_v2 db (c_str query) = (SQLITE_OK, Some stmt)
      \<and> upcoming stmt = map StepRow rows @ StepDone # rest"
  then have up: "upcoming stmt = map StepRow rows @ StepDone # rest" by simp
  have "fst (sqlite3_step stmt) = SQLITE_ROW \<or> fst (sqlite3_step stmt) = SQLITE_DONE"
    using sqlite3_first_step_of_rows [OF up] by blast
  then have "fst (Sqlite3Db_ExecQuery d (Some query) err)
           = Sqlite3Query_ctor (Some db) (Some (snd (sqlite3_step stmt)))
               (fst (sqlite3_step stmt) = SQLITE_DONE)"
    using a Sqlite3Db_ExecQuery_cursor by blast
  then show "Sqlite3Query_Eof ((Sqlite3Query_NextRow ^^ k) (fst (Sqlite3Db_ExecQuery d (Some query) err)))
           = (length rows \<le> k)"
    using Sqlite3Query_fresh_cursor [OF up] by (simp add: Sqlite3Query_Eof_def)
next
  fix k
  assume a: "ss_db s = Some db \<and> ss_stmt s = Some stmt
      \<and> upcoming stmt = map StepRow rows @ StepDone # rest"
  then have up: "upcoming stmt = map StepRow rows @ StepDone # rest" by simp
  have "fst (sqlite3_step stmt) = SQLITE_ROW \<or> fst (sqlite3_step stmt) = SQLITE_DONE"
    using sqlite3_first_step_of_rows [OF up] by blast
  then have "fst (Sqlite3Statement_ExecQuery s err)
           = Sqlite3Query_ctor (Some db) (Some (snd (sqlite3_step stmt)))
               (fst (sqlite3_step stmt) = SQLITE_DONE)"
    using a Sqlite3Statement_ExecQuery_transfers [of s db stmt err] by simp
  then show "Sqlite3Query_Eof ((Sqlite3Query_NextRow ^^ k) (fst (Sqlite3Statement_ExecQuery s err)))
           = (length rows \<le> k)"
    using Sqlite3Query_fresh_cursor [OF up] by (simp add: Sqlite3Query_Eof_def)
next
  fix k
  assume a: "md_conn m = Some conn \<and> reply_status (mysql_query conn (c_str query)) = 0
      \<and> reply_result (mysql_query conn (c_str query)) = Some res
      \<and> res_pos res = 0 \<and> length (res_rows res) < 2 ^ 64"
  then have "fst (MariaDb_ExecQuery m (Some query) err)
           = MariaQuery_ctor (Some res) (mysql_num_rows res = 0)"
    using MariaDb_ExecQuery_cursor by blast
  then show "MariaQuery_Eof ((MariaQuery_NextRow ^^ k) (fst (MariaDb_ExecQuery m (Some query) err)))
           = (length (res_rows res) \<le> k)"
    using a MariaQuery_fresh_cursor [of res k] by (simp add: MariaQuery_Eof_def)
qed

theorem forward_cursor_eof_after_R_rows_witness:
  "sd_db example_Sqlite3Db = Some example_sqlite3
   \<and> prepare_v2 example_sqlite3 (c_str ''SELECT id FROM t'') = (SQLITE_OK, Some example_sqlite3_stmt)
   \<and> upcoming example_sqlite3_stmt = map StepRow example_rows @ StepDone # []
   \<and> length example_rows = 2
   \<and> \<not> Sqlite3Query_Eof (fst (Sqlite3Db_ExecQuery example_Sqlite3Db (Some ''SELECT id FROM t'') None))
   \<and> \<not> Sqlite3Query_Eof (Sqlite3Query_NextRow
            (fst (Sqlite3Db_ExecQuery example_Sqlite3Db (Some ''SELECT id FROM t'') None)))
   \<and> Sqlite3Query_Eof (Sqlite3Query_NextRow (Sqlite3Query_NextRow
            (fst (Sqlite3Db_ExecQuery example_Sqlite3Db (Some ''SELECT id FROM t'') None))))
   \<and> md_conn example_MariaDb = Some example_mysql
   \<and> reply_status (mysql_query example_mysql (c_str ''SELECT id FROM t'')) = 0
   \<and> reply_result (mysql_query example_mysql (c_str ''SELECT id FROM t'')) = Some example_res
   \<and> res_pos example_res = 0 \<and> length (res_rows example_res) < 2 ^ 64
   \<and> \<not> MariaQuery_Eof (fst (MariaDb_ExecQuery example_MariaDb (Some ''SELECT id FROM t'') None))
   \<and> \<not> MariaQuery_Eof (MariaQuery_NextRow
            (fst (MariaDb_ExecQuery example_MariaDb (Some ''SELECT id FROM t'') None)))
   \<and> MariaQuery_Eof (MariaQuery_NextRow (MariaQuery_NextRow
            (fst (MariaDb_ExecQuery example_MariaDb (Some ''SELECT id FROM t'') None))))"
proof -
  note inst = forward_cursor_eof_after_R_rows
    [where d = example_Sqlite3Db and db = example_sqlite3 and query = "''SELECT id FROM t''"
       and stmt = example_sqlite3_stmt and rows = example_rows
       and rest = "[]" and err = None and s = example_Sqlite3Statement
       and m = example_MariaDb and conn = example_mysql and res = example_res]
  have h1: "sd_db example_Sqlite3Db = Some example_sqlite3"
    "prepare_v2 example_sqlite3 (c_str ''SELECT id FROM t'') = (SQLITE_OK, Some example_sqlite3_stmt)"
    "upcoming example_sqlite3_stmt = map StepRow example_rows @ StepDone # []"
    by (simp_all add: example_Sqlite3Db_def example_sqlite3_def example_sqlite3_stmt_def
          SQLITE_OK_def)
  have h2: "md_conn example_MariaDb = Some example_mysql"
    "reply_status (mysql_query example_mysql (c_str ''SELECT id FROM t'')) = 0"
    "reply_result (mysql_query example_mysql (c_str ''SELECT id FROM t'')) = Some example_res"
    "res_pos example_res = 0" "length (res_rows example_res) < 2 ^ 64"
    by (simp_all add: example_MariaDb_def example_mysql_def example_res_def)
  from inst h1 have s: "\<forall>k. Sqlite3Query_Eof ((Sqlite3Query_NextRow ^^ k)
        (fst (Sqlite3Db_ExecQuery example_Sqlite3Db (Some ''SELECT id FROM t'') None)))
      = (length example_rows \<le> k)"
    by blast
  from inst h2 have m: "\<forall>k. MariaQuery_Eof ((MariaQuery_NextRow ^^ k)
        (fst (MariaDb_ExecQuery example_MariaDb (Some ''SELECT id FROM t'') None)))
      = (length (res_rows example_res) \<le> k)"
    by blast
  have len: "length (res_rows example_res) = 2" "length example_rows = 2"
    by (simp_all add: example_res_def example_rows_def)
  show ?thesis
    using h1 h2 s [rule_format, of 0] s [rule_format, of "Suc 0"] s [rule_format, of "Suc (Suc 0)"]
      m [rule_format, of 0] m [rule_format, of "Suc 0"] m [rule_format, of "Suc (Suc 0)"]
    by (simp add: len)
qed

section \<open>Typed getters fall back to the caller's default\<close>

lemma find_name_unresolved:
  "(\<And>j c. i \<le> j \<Longrightarrow> j < n \<Longrightarrow> name_at j = Some c \<Longrightarrow> c_str c \<noteq> c_str name)
     \<Longrightarrow> find_name name_at n name i = - 1"
proof (induction name_at n name i rule: find_name.induct)
  case (1 name_at n name i)
  show ?case
  proof (cases "i < n")
    case False
    then show ?thesis by (simp add: find_name.simps [of name_at n name i])
  next
    case True
    have later: "c_str c \<noteq> c_str name" if "i + 1 \<le> j" "j < n" "name_at j = Some c" for j c
      using "1.prems" [of j c] that by simp
    have rest: "find_name name_at n name (i + 1) = - 1"
    proof (cases "name_at i")
      case None
      show ?thesis
        by (rule "1.IH"(1) [OF True None]) (use later in blast)
    next
      case (Some c)
      have ne: "c_str name \<noteq> c_str c"
        using "1.prems" [of i c] True Some by auto
      show ?thesis
        by (rule "1.IH"(2) [OF True Some ne]) (use later in blast)
    qed
    show ?thesis
    proof (cases "name_at i")
      case None
      then show ?thesis using True rest by (simp add: find_name.simps [of name_at n name i])
    next
      case (Some c)
      have "c_str name \<noteq> c_str c"
        using "1.prems" [of i c] True Some by auto
      then show ?thesis
        using True rest Some by (simp add: find_name.simps [of name_at n name i])
    qed
  qed
qed

lemma Sqlite3Query_FieldIsNull_out_of_range:
  "col < 0 \<or> Sqlite3Query_NumFields q \<le> col \<Longrightarrow> Sqlite3Query_FieldIsNull q col"
  by (auto simp: Sqlite3Query_FieldIsNull_def Sqlite3Query_NumFields_def split: option.splits)

lemma MariaQuery_FieldIsNull_out_of_range:
  "col < 0 \<or> MariaQuery_NumFields q \<le> col \<Longrightarrow> MariaQuery_FieldIsNull q col"
  by (auto simp: MariaQuery_FieldIsNull_def MariaQuery_NumFields_def split: option.splits)

lemma Sqlite3Query_getters_null:
  assumes "Sqlite3Query_FieldIsNull q col"
  shows "Sqlite3Query_GetInt q col di = di" and "Sqlite3Query_GetInt64 q col dl = dl"
    and "Sqlite3Query_GetDouble q col dd = dd" and "Sqlite3Query_GetString q col ds = ds"
  using assms
  by (simp_all add: Sqlite3Query_GetInt_def Sqlite3Query_GetInt64_def Sqlite3Query_GetDouble_def
        Sqlite3Query_GetString_def)

lemma Sqlite3Query_getters_by_name:
  assumes "Sqlite3Query_FieldIndex q name < 0
           \<or> Sqlite3Query_FieldIsNull q (Sqlite3Query_FieldIndex q name)"
  shows "Sqlite3Query_GetInt_name q name di = di"
    and "Sqlite3Query_GetDouble_name q name dd = dd"
    and "Sqlite3Query_GetString_name q name ds = ds"
  using assms
  by (auto simp: Sqlite3Query_GetInt_name_def Sqlite3Query_GetDouble_name_def
        Sqlite3Query_GetString_name_def Let_def Sqlite3Query_getters_null)

lemma MariaQuery_getters_null:
  assumes "MariaQuery_FieldIsNull q col"
  shows "MariaQuery_GetInt strtol q col di = di" and "MariaQuery_GetInt64 strtoll q col dl = dl"
    and "MariaQuery_GetDouble strtod q col dd = dd" and "MariaQuery_GetString q col ds = ds"
  using assms
  by (simp_all add: MariaQuery_GetInt_def MariaQuery_GetInt64_def MariaQuery_GetDouble_def
        MariaQuery_GetString_def)

lemma MariaQuery_getters_by_name:
  assumes "MariaQuery_FieldIndex q name < 0
           \<or> MariaQuery_FieldIsNull q (MariaQuery_FieldIndex q name)"
  shows "MariaQuery_GetInt_name strtol q name di = di"
    and "MariaQuery_GetDouble_name strtod q name dd = dd"
    and "MariaQuery_GetString_name q name ds = ds"
  using assms
  by (auto simp: MariaQuery_GetInt_name_def MariaQuery_GetDouble_name_def
        MariaQuery_GetString_name_def Let_def MariaQuery_getters_null)

lemma Sqlite3Query_FieldIndex_unresolved:
  assumes "\<forall>s j c. 0 \<le> j \<and> j < sq_num_fields q \<and> sq_stmt q = Some s
                 \<and> sqlite3_column_name s j = Some c \<longrightarrow> c_str c \<noteq> c_str n"
  shows "Sqlite3Query_FieldIndex q (Some n) = - 1"
proof (cases "sq_stmt q")
  case None
  then show ?thesis by (simp add: Sqlite3Query_FieldIndex_def)
next
  case (Some s')
  have "find_name (sqlite3_column_name s') (sq_num_fields q) n 0 = - 1"
    by (rule find_name_unresolved) (use assms Some in auto)
  then show ?thesis using Some by (simp add: Sqlite3Query_FieldIndex_def)
qed

lemma MariaQuery_FieldIndex_unresolved:
  assumes "\<forall>fs j c. 0 \<le> j \<and> j < mq_num_fields q \<and> mq_fields q = Some fs
                 \<and> field_name_at fs j = Some c \<longrightarrow> c_str c \<noteq> c_str n"
  shows "MariaQuery_FieldIndex q (Some n) = - 1"
proof (cases "mq_fields q")
  case None
  then show ?thesis by (simp add: MariaQuery_FieldIndex_def)
next
  case (Some fs')
  have "find_name (field_name_at fs') (mq_num_fields q) n 0 = - 1"
    by (rule find_name_unresolved) (use assms Some in auto)
  then show ?thesis using Some by (simp add: MariaQuery_FieldIndex_def)
qed

text \<open>
  C8. On the cursors of both backends every typed getter returns the caller's default
  when the position is out of range or the field is null, and every by-name getter
  returns it when the name resolves to no column (\<open>FieldIndex\<close> negative, as it is for
  a null name and for a name no column carries) or the named field is null. A getter's
  result is a plain value: there is no error it could report. (The result-set classes
  define no typed getters, and \<open>GetInt64\<close> has no by-name form.)
\<close>

theorem typed_getters_return_default:
  "(col < 0 \<or> Sqlite3Query_NumFields q \<le> col \<or> Sqlite3Query_FieldIsNull q col \<longrightarrow>
      Sqlite3Query_GetInt q col di = di \<and> Sqlite3Query_GetInt64 q col dl = dl
    \<and> Sqlite3Query_GetDouble q col dd = dd \<and> Sqlite3Query_GetString q col ds = ds)
   \<and> (Sqlite3Query_FieldIndex q name < 0
        \<or> Sqlite3Query_FieldIsNull q (Sqlite3Query_FieldIndex q name) \<longrightarrow>
      Sqlite3Query_GetInt_name q name di = di \<and> Sqlite3Query_GetDouble_name q name dd = dd
    \<and> Sqlite3Query_GetString_name q name ds = ds)
   \<and> Sqlite3Query_FieldIndex q None = - 1
   \<and> ((\<forall>s j c. 0 \<le> j \<and> j < sq_num_fields q \<and> sq_stmt q = Some s
               \<and> sqlite3_column_name s j = Some c \<longrightarrow> c_str c \<noteq> c_str n) \<longrightarrow>
      Sqlite3Query_FieldIndex q (Some n) = - 1)
   \<and> (col < 0 \<or> MariaQuery_NumFields m \<le> col \<or> MariaQuery_FieldIsNull m col \<longrightarrow>
      MariaQuery_GetInt strtol m col di = di \<and> MariaQuery_GetInt64 strtoll m col dl = dl
    \<and> MariaQuery_GetDouble strtod m col dd = dd \<and> MariaQuery_GetString m col ds = ds)
   \<and> (MariaQuery_FieldIndex m name < 0
        \<or> MariaQuery_FieldIsNull m (MariaQuery_FieldIndex m name) \<longrightarrow>
      MariaQuery_GetInt_name strtol m name di = di \<and> MariaQuery_GetDouble_name strtod m name dd = dd
    \<and> MariaQuery_GetString_name m name ds = ds)
   \<and> MariaQuery_FieldIndex m None = - 1
   \<and> ((\<forall>fs j c. 0 \<le> j \<and> j < mq_num_fields m \<and> mq_fields m = Some fs
               \<and> field_name_at fs j = Some c \<longrightarrow> c_str c \<noteq> c_str n) \<longrightarrow>
      MariaQuery_FieldIndex m (Some n) = - 1)"
proof (intro conjI impI)
  assume "col < 0 \<or> Sqlite3Query_NumFields q \<le> col \<or> Sqlite3Query_FieldIsNull q col"
  then have "Sqlite3Query_FieldIsNull q col"
    using Sqlite3Query_FieldIsNull_out_of_range by blast
  then show "Sqlite3Query_GetInt q col di = di" "Sqlite3Query_GetInt64 q col dl = dl"
    "Sqlite3Query_GetDouble q col dd = dd" "Sqlite3Query_GetString q col ds = ds"
    by (rule Sqlite3Query_getters_null)+
next
  assume a: "Sqlite3Query_FieldIndex q name < 0
        \<or> Sqlite3Query_FieldIsNull q (Sqlite3Query_FieldIndex q name)"
  show "Sqlite3Query_GetInt_name q name di = di" "Sqlite3Query_GetDouble_name q name dd = dd"
    "Sqlite3Query_GetString_name q name ds = ds"
    by (rule Sqlite3Query_getters_by_name [OF a])+
next
  show "Sqlite3Query_FieldIndex q None = - 1"
    by (simp add: Sqlite3Query_FieldIndex_def split: option.splits)
next
  assume "\<forall>s j c. 0 \<le> j \<and> j < sq_num_fields q \<and> sq_stmt q = Some s
               \<and> sqlite3_column_name s j = Some c \<longrightarrow> c_str c \<noteq> c_str n"
  then show "Sqlite3Query_FieldIndex q (Some n) = - 1"
    by (rule Sqlite3Query_FieldIndex_unresolved)
next
  assume "col < 0 \<or> MariaQuery_NumFields m \<le> col \<or> MariaQuery_FieldIsNull m col"
  then have "MariaQuery_FieldIsNull m col"
    using MariaQuery_FieldIsNull_out_of_range by blast
  then show "MariaQuery_GetInt strtol m col di = di" "MariaQuery_GetInt64 strtoll m col dl = dl"
    "MariaQuery_GetDouble strtod m col dd = dd" "MariaQuery_GetString m col ds = ds"
    by (rule MariaQuery_getters_null)+
next
  assume a: "MariaQuery_FieldIndex m name < 0
        \<or> MariaQuery_FieldIsNull m (MariaQuery_FieldIndex m name)"
  show "MariaQuery_GetInt_name strtol m name di = di"
    "MariaQuery_GetDouble_name strtod m name dd = dd"
    "MariaQuery_GetString_name m name ds = ds"
    by (rule MariaQuery_getters_by_name [OF a])+
next
  show "MariaQuery_FieldIndex m None = - 1"
    by (simp add: MariaQuery_FieldIndex_def split: option.splits)
next
  assume "\<forall>fs j c. 0 \<le> j \<and> j < mq_num_fields m \<and> mq_fields m = Some fs
               \<and> field_name_at fs j = Some c \<longrightarrow> c_str c \<noteq> c_str n"
  then show "MariaQuery_FieldIndex m (Some n) = - 1"
    by (rule MariaQuery_FieldIndex_unresolved)
qed

theorem typed_getters_return_default_witness:
  "Sqlite3Query_NumFields example_Sqlite3Query \<le> 5
   \<and> Sqlite3Query_GetInt example_Sqlite3Query 5 7 = 7
   \<and> Sqlite3Query_GetInt64 example_Sqlite3Query 5 7 = 7
   \<and> Sqlite3Query_FieldIsNull example_Sqlite3Query 1
   \<and> Sqlite3Query_GetString example_Sqlite3Query 1 (Some ''none'') = Some ''none''
   \<and> Sqlite3Query_FieldIndex example_Sqlite3Query (Some ''nope'') < 0
   \<and> Sqlite3Query_GetInt_name example_Sqlite3Query (Some ''nope'') 7 = 7
   \<and> MariaQuery_NumFields example_MariaQuery \<le> 5
   \<and> MariaQuery_GetInt (\<lambda>t. 0) example_MariaQuery 5 7 = 7
   \<and> MariaQuery_FieldIsNull example_MariaQuery 1
   \<and> MariaQuery_GetString example_MariaQuery 1 (Some ''none'') = Some ''none''
   \<and> MariaQuery_FieldIndex example_MariaQuery (Some ''nope'') < 0
   \<and> MariaQuery_GetInt_name (\<lambda>t. 0) example_MariaQuery (Some ''nope'') 7 = 7"
proof -
  have h: "Sqlite3Query_NumFields example_Sqlite3Query \<le> 5"
    "Sqlite3Query_FieldIsNull example_Sqlite3Query 1"
    "Sqlite3Query_FieldIndex example_Sqlite3Query (Some ''nope'') < 0"
    "MariaQuery_NumFields example_MariaQuery \<le> 5"
    "MariaQuery_FieldIsNull example_MariaQuery 1"
    "MariaQuery_FieldIndex example_MariaQuery (Some ''nope'') < 0"
    by code_simp+
  note out_of_range = typed_getters_return_default
    [where q = example_Sqlite3Query and m = example_MariaQuery and col = 5 and di = 7
       and dl = 7 and name = "Some ''nope''" and strtol = "\<lambda>t. 0"]
  note null_field = typed_getters_return_default
    [where q = example_Sqlite3Query and m = example_MariaQuery and col = 1
       and ds = "Some ''none''"]
  show ?thesis
    using h out_of_range null_field by simp
qed

section \<open>Seeking and iterating a materialized result set\<close>

lemma sint_of_nat_small: "i < 2 ^ 31 \<Longrightarrow> sint (of_nat i :: 32 word) = int i"
  by (simp add: signed_of_nat signed_take_bit_int_eq_self)

lemma of_nat_less_32: "R < 2 ^ 32 \<Longrightarrow> i < R \<Longrightarrow> (of_nat i :: 32 word) < of_nat R"
  by (simp add: of_nat_word_less_iff take_bit_nat_eq_self)

lemma of_nat_less_64: "R < 2 ^ 64 \<Longrightarrow> i < R \<Longrightarrow> (of_nat i :: 64 word) < of_nat R"
  by (simp add: of_nat_word_less_iff take_bit_nat_eq_self)

lemma unat_ucast_32_64: "unat (ucast (w :: 32 word) :: 64 word) = unat w"
proof -
  have "unat w < 2 ^ 32" using unsigned_less [of w] by simp
  then have "unat w < 2 ^ 64" by simp
  then show ?thesis by (simp add: unsigned_ucast_eq take_bit_nat_eq_self)
qed

lemma unat_ucast_64_32: "unat x < 2 ^ 32 \<Longrightarrow> unat (ucast (x :: 64 word) :: 32 word) = unat x"
  by (simp add: unsigned_ucast_eq take_bit_nat_eq_self)

lemma concat_nth_uniform:
  "\<forall>row \<in> set rows. length row = n \<Longrightarrow> i < length rows \<Longrightarrow> c < n
     \<Longrightarrow> concat rows ! (i * n + c) = rows ! i ! c"
proof (induction rows arbitrary: i)
  case Nil
  then show ?case by simp
next
  case (Cons r rows)
  show ?case
  proof (cases i)
    case 0
    then show ?thesis using Cons.prems by (simp add: nth_append)
  next
    case (Suc j)
    have "concat rows ! (j * n + c) = rows ! j ! c"
      using Cons.IH [of j] Cons.prems Suc by simp
    moreover have "length r = n" using Cons.prems by simp
    ultimately show ?thesis using Suc by (simp add: nth_append)
  qed
qed

lemma concat_length_uniform:
  "\<forall>row \<in> set rows. length row = n \<Longrightarrow> length (concat rows) = length rows * n"
  by (induction rows) simp_all

lemma Sqlite3ResultSet_SeekRow_clamps:
  "sr_num_rows r \<noteq> 0 \<Longrightarrow> sr_num_rows r \<le> row
     \<Longrightarrow> Sqlite3ResultSet_SeekRow r row = r\<lparr>sr_current_row := sr_num_rows r - 1\<rparr>"
  by (simp add: Sqlite3ResultSet_SeekRow_def word_gt_0)

lemma Sqlite3ResultSet_SeekRow_empty:
  "sr_num_rows r = 0 \<Longrightarrow> Sqlite3ResultSet_SeekRow r row = r\<lparr>sr_current_row := row\<rparr>"
  by (simp add: Sqlite3ResultSet_SeekRow_def)

lemma Sqlite3ResultSet_SeekRow_first:
  "Sqlite3ResultSet_SeekRow r 0 = r\<lparr>sr_current_row := 0\<rparr>"
  by (auto simp: Sqlite3ResultSet_SeekRow_def)

lemma Sqlite3ResultSet_iterate:
  assumes "sr_num_rows r = of_nat R" and "R < 2 ^ 32" and "i \<le> R"
  shows "(Sqlite3ResultSet_NextRow ^^ i) (r\<lparr>sr_current_row := 0\<rparr>)
           = r\<lparr>sr_current_row := of_nat i\<rparr>"
  using assms(3)
proof (induction i)
  case 0
  then show ?case by simp
next
  case (Suc i)
  then have "i < R" by simp
  then have lt: "(of_nat i :: 32 word) < of_nat R"
    using assms(2) by (rule of_nat_less_32 [rotated])
  have "(Sqlite3ResultSet_NextRow ^^ Suc i) (r\<lparr>sr_current_row := 0\<rparr>)
          = Sqlite3ResultSet_NextRow (r\<lparr>sr_current_row := of_nat i\<rparr>)"
    using Suc by simp
  also have "\<dots> = r\<lparr>sr_current_row := of_nat (Suc i)\<rparr>"
    using lt assms(1) by (simp add: Sqlite3ResultSet_NextRow_def add.commute)
  finally show ?case .
qed

lemma table_at_nat: "table_at xs (int k) = (if k < length xs then xs ! k else None)"
  by (simp add: table_at_def)

lemma Sqlite3ResultSet_cell:
  assumes "sr_results r = Some (names @ concat rows)" and "length names = n"
    and "\<forall>row \<in> set rows. length row = n" and "sr_num_cols r = int n"
    and "i < length rows" and "(length rows + 1) * n < 2 ^ 31" and "c < n"
  shows "Sqlite3ResultSet_FieldValue (r\<lparr>sr_current_row := of_nat i\<rparr>) (int c) = rows ! i ! c"
proof -
  have rows_n: "Suc i * n \<le> length rows * n"
    using assms(5) by (intro mult_le_mono1) simp
  then have "n + (i * n + c) < (length rows + 1) * n"
    using assms(7) by simp
  then have fits: "n + (i * n + c) < 2 ^ 31"
    using assms(6) by (rule less_trans)
  have "(of_nat i :: 32 word) * word_of_int (int n) + word_of_int (int n) + word_of_int (int c)
          = of_nat (n + (i * n + c))"
    by simp
  then have idx: "Sqlite3ResultSet_RealIndex (r\<lparr>sr_current_row := of_nat i\<rparr>) (int c)
               = int (n + (i * n + c))"
    using assms(4) sint_of_nat_small [OF fits]
    by (simp add: Sqlite3ResultSet_RealIndex_def del: of_nat_add of_nat_mult)
  have inside: "i * n + c < length (concat rows)"
    using rows_n
    using assms(7) by (simp add: concat_length_uniform [OF assms(3)])
  have "table_at (names @ concat rows) (int (n + (i * n + c))) = concat rows ! (i * n + c)"
    unfolding table_at_nat using inside assms(2) by (simp add: nth_append)
  also have "\<dots> = rows ! i ! c"
    by (rule concat_nth_uniform [OF assms(3,5,7)])
  finally have cell: "table_at (names @ concat rows) (int (n + (i * n + c))) = rows ! i ! c" .
  have "\<not> int (n + (i * n + c)) < 0" by (simp only: not_less of_nat_0_le_iff)
  then show ?thesis
    using assms(1,4,7) idx cell
    by (simp add: Sqlite3ResultSet_FieldValue_def Let_def del: of_nat_add of_nat_mult)
qed

lemma MariaResultSet_SeekRow_clamps:
  assumes "mr_res s = Some r" and "mr_num_rows s \<noteq> 0" and "mr_num_rows s \<le> ucast row"
  shows "mr_current_row (MariaResultSet_SeekRow s row) = mr_num_rows s - 1"
  using assms by (simp add: MariaResultSet_SeekRow_def Let_def split: prod.splits)

lemma MariaResultSet_SeekRow_clamps_unat:
  assumes "mr_res s = Some r" and "mr_num_rows s \<noteq> 0" and "mr_num_rows s \<le> ucast row"
  shows "unat (MariaResultSet_CurrentRow (MariaResultSet_SeekRow s row)) = unat (mr_num_rows s) - 1"
proof -
  have "unat (mr_num_rows s) \<le> unat row"
    using assms(3) by (simp add: word_le_nat_alt unat_ucast_32_64)
  moreover have "unat row < 2 ^ 32" using unsigned_less [of row] by simp
  ultimately have "unat (mr_num_rows s - 1) < 2 ^ 32"
    using assms(2) by (simp add: unat_minus_one)
  then show ?thesis
    using MariaResultSet_SeekRow_clamps [OF assms] assms(2)
    by (simp add: MariaResultSet_CurrentRow_def unat_ucast_64_32 unat_minus_one)
qed

lemma MariaResultSet_SeekRow_empty:
  "mr_num_rows s = 0 \<or> mr_res s = None \<Longrightarrow> MariaResultSet_SeekRow s row = s"
  by (auto simp: MariaResultSet_SeekRow_def split: option.splits)

lemma of_nat_64_nonzero: "0 < R \<Longrightarrow> R < 2 ^ 64 \<Longrightarrow> (of_nat R :: 64 word) \<noteq> 0"
  using of_nat_less_64 [of R 0] by auto

lemma MariaResultSet_iterate:
  assumes "mr_res s = Some r" and "mr_num_rows s = of_nat (length (res_rows r))"
    and "length (res_rows r) < 2 ^ 64" and "i < length (res_rows r)"
  shows "(MariaResultSet_NextRow ^^ i) (MariaResultSet_SeekRow s 0)
           = s\<lparr>mr_current_row := of_nat i, mr_res := Some (r\<lparr>res_pos := Suc i\<rparr>),
               mr_row := Some (res_rows r ! i)\<rparr>"
  using assms(4)
proof (induction i)
  case 0
  then have "mr_num_rows s \<noteq> 0"
    using assms(2,3) of_nat_64_nonzero by simp
  then show ?case
    using assms(1) 0
    by (simp add: MariaResultSet_SeekRow_def Let_def mysql_data_seek_def mysql_fetch_row_def
          word_le_0_iff)
next
  case (Suc i)
  then have lt: "(of_nat i :: 64 word) < of_nat (length (res_rows r))"
    "(of_nat (Suc i) :: 64 word) < of_nat (length (res_rows r))"
    using assms(3) by (simp_all add: of_nat_less_64 del: of_nat_Suc)
  have "(MariaResultSet_NextRow ^^ i) (MariaResultSet_SeekRow s 0)
           = s\<lparr>mr_current_row := of_nat i, mr_res := Some (r\<lparr>res_pos := Suc i\<rparr>),
               mr_row := Some (res_rows r ! i)\<rparr>"
    using Suc by simp
  then have "(MariaResultSet_NextRow ^^ Suc i) (MariaResultSet_SeekRow s 0)
           = MariaResultSet_NextRow
               (s\<lparr>mr_current_row := of_nat i, mr_res := Some (r\<lparr>res_pos := Suc i\<rparr>),
                  mr_row := Some (res_rows r ! i)\<rparr>)"
    by simp
  also have "\<dots> = s\<lparr>mr_current_row := of_nat (Suc i),
                        mr_res := Some (r\<lparr>res_pos := Suc (Suc i)\<rparr>),
                        mr_row := Some (res_rows r ! Suc i)\<rparr>"
    using lt assms(2) Suc.prems
    by (simp add: MariaResultSet_NextRow_def Let_def mysql_fetch_row_def add.commute
          not_le [symmetric])
  finally show ?case .
qed

lemma MariaResultSet_after_last:
  assumes "mr_res s = Some r" and "mr_num_rows s = of_nat (length (res_rows r))"
    and "length (res_rows r) < 2 ^ 64"
  shows "MariaResultSet_Eof
           ((MariaResultSet_NextRow ^^ length (res_rows r)) (MariaResultSet_SeekRow s 0))"
proof (cases "length (res_rows r)")
  case 0
  then have "MariaResultSet_SeekRow s 0 = s"
    using assms(2) by (simp add: MariaResultSet_SeekRow_empty)
  then show ?thesis using 0 assms(2) by (simp add: MariaResultSet_Eof_def)
next
  case (Suc j)
  then have j: "j < length (res_rows r)" by simp
  have lt: "(of_nat j :: 64 word) < of_nat (length (res_rows r))"
    using assms(3) j by (simp add: of_nat_less_64)
  have "(MariaResultSet_NextRow ^^ j) (MariaResultSet_SeekRow s 0)
           = s\<lparr>mr_current_row := of_nat j, mr_res := Some (r\<lparr>res_pos := Suc j\<rparr>),
               mr_row := Some (res_rows r ! j)\<rparr>"
    by (rule MariaResultSet_iterate [OF assms j])
  then have "(MariaResultSet_NextRow ^^ Suc j) (MariaResultSet_SeekRow s 0)
           = MariaResultSet_NextRow
               (s\<lparr>mr_current_row := of_nat j, mr_res := Some (r\<lparr>res_pos := Suc j\<rparr>),
                  mr_row := Some (res_rows r ! j)\<rparr>)"
    by simp
  also have "\<dots> = s\<lparr>mr_current_row := of_nat (Suc j),
                        mr_res := Some (r\<lparr>res_pos := Suc j\<rparr>), mr_row := None\<rparr>"
    using lt assms(2) Suc
    by (simp add: MariaResultSet_NextRow_def Let_def add.commute not_le [symmetric])
  finally show ?thesis
    using Suc assms(2) by (simp add: MariaResultSet_Eof_def)
qed

lemma Sqlite3ResultSet_visit:
  assumes "sr_results r = Some (names @ concat rows)" and "length names = n"
    and "\<forall>x \<in> set rows. length x = n" and "sr_num_cols r = int n"
    and "sr_num_rows r = of_nat (length rows)" and "length rows < 2 ^ 31"
    and "(length rows + 1) * n < 2 ^ 31"
  shows "\<forall>i < length rows.
           \<not> Sqlite3ResultSet_Eof ((Sqlite3ResultSet_NextRow ^^ i) (Sqlite3ResultSet_SeekRow r 0))
           \<and> Sqlite3ResultSet_CurrentRow
               ((Sqlite3ResultSet_NextRow ^^ i) (Sqlite3ResultSet_SeekRow r 0)) = of_nat i
           \<and> (\<forall>c < n. Sqlite3ResultSet_FieldValue
                          ((Sqlite3ResultSet_NextRow ^^ i) (Sqlite3ResultSet_SeekRow r 0)) (int c)
                        = rows ! i ! c)"
    and "Sqlite3ResultSet_Eof
           ((Sqlite3ResultSet_NextRow ^^ length rows) (Sqlite3ResultSet_SeekRow r 0))"
proof -
  have small: "length rows < 2 ^ 32" using assms(6) by simp
  have at: "(Sqlite3ResultSet_NextRow ^^ i) (Sqlite3ResultSet_SeekRow r 0)
              = r\<lparr>sr_current_row := of_nat i\<rparr>" if "i \<le> length rows" for i
    using Sqlite3ResultSet_iterate [OF assms(5) small that]
    by (simp add: Sqlite3ResultSet_SeekRow_first)
  show "\<forall>i < length rows.
           \<not> Sqlite3ResultSet_Eof ((Sqlite3ResultSet_NextRow ^^ i) (Sqlite3ResultSet_SeekRow r 0))
           \<and> Sqlite3ResultSet_CurrentRow
               ((Sqlite3ResultSet_NextRow ^^ i) (Sqlite3ResultSet_SeekRow r 0)) = of_nat i
           \<and> (\<forall>c < n. Sqlite3ResultSet_FieldValue
                          ((Sqlite3ResultSet_NextRow ^^ i) (Sqlite3ResultSet_SeekRow r 0)) (int c)
                        = rows ! i ! c)"
  proof (intro allI impI conjI)
    fix i assume i: "i < length rows"
    then have here: "(Sqlite3ResultSet_NextRow ^^ i) (Sqlite3ResultSet_SeekRow r 0)
              = r\<lparr>sr_current_row := of_nat i\<rparr>"
      using at [of i] by simp
    have "(of_nat i :: 32 word) < of_nat (length rows)"
      using small i by (rule of_nat_less_32)
    then show "\<not> Sqlite3ResultSet_Eof
                 ((Sqlite3ResultSet_NextRow ^^ i) (Sqlite3ResultSet_SeekRow r 0))"
      using assms(5) by (simp add: here Sqlite3ResultSet_Eof_def not_le)
    show "Sqlite3ResultSet_CurrentRow
            ((Sqlite3ResultSet_NextRow ^^ i) (Sqlite3ResultSet_SeekRow r 0)) = of_nat i"
      by (simp add: here Sqlite3ResultSet_CurrentRow_def)
    fix c assume c: "c < n"
    show "Sqlite3ResultSet_FieldValue
            ((Sqlite3ResultSet_NextRow ^^ i) (Sqlite3ResultSet_SeekRow r 0)) (int c)
          = rows ! i ! c"
      unfolding here by (rule Sqlite3ResultSet_cell [OF assms(1-4) i assms(7) c])
  qed
  show "Sqlite3ResultSet_Eof
          ((Sqlite3ResultSet_NextRow ^^ length rows) (Sqlite3ResultSet_SeekRow r 0))"
    using at [of "length rows"] assms(5) by (simp add: Sqlite3ResultSet_Eof_def)
qed

lemma MariaResultSet_visit:
  assumes "mr_res s = Some res" and "mr_num_rows s = of_nat (length (res_rows res))"
    and "length (res_rows res) < 2 ^ 64"
  shows "\<forall>i < length (res_rows res).
           \<not> MariaResultSet_Eof ((MariaResultSet_NextRow ^^ i) (MariaResultSet_SeekRow s 0))
           \<and> mr_row ((MariaResultSet_NextRow ^^ i) (MariaResultSet_SeekRow s 0))
               = Some (res_rows res ! i)"
proof (intro allI impI)
  fix i assume i: "i < length (res_rows res)"
  have lt: "(of_nat i :: 64 word) < of_nat (length (res_rows res))"
    using assms(3) i by (rule of_nat_less_64)
  show "\<not> MariaResultSet_Eof ((MariaResultSet_NextRow ^^ i) (MariaResultSet_SeekRow s 0))
           \<and> mr_row ((MariaResultSet_NextRow ^^ i) (MariaResultSet_SeekRow s 0))
               = Some (res_rows res ! i)"
    using lt assms(2)
    by (simp add: MariaResultSet_iterate [OF assms i] MariaResultSet_Eof_def not_le)
qed

text \<open>
  C5, as the code has it. On a result set of \<open>R > 0\<close> rows, \<open>SeekRow\<close> at any
  \<open>row \<ge> R\<close> lands on row \<open>R - 1\<close>, on both backends. On an empty result set the
  client/server \<open>SeekRow\<close> changes nothing, while the embedded one stores the requested
  row as current row (the set stays at end-of-stream). After \<open>SeekRow(0)\<close>, \<open>i\<close>
  calls of \<open>NextRow\<close> with \<open>i < R\<close> stand on row \<open>i\<close> of the result, and after
  \<open>R\<close> calls the set is at end-of-stream, on both backends. On the embedded backend
  the cells are read through the 32-bit index of \<open>RealIndex\<close>, so the table, header row
  included, is taken to have fewer than \<open>2^31\<close> entries: \<open>(R + 1) * n < 2^31\<close> for
  \<open>n\<close> columns.
\<close>

theorem SeekRow_clamps_and_rows_in_order:
  "(sr_num_rows r \<noteq> 0 \<and> sr_num_rows r \<le> row \<longrightarrow>
      Sqlite3ResultSet_CurrentRow (Sqlite3ResultSet_SeekRow r row) = sr_num_rows r - 1)
   \<and> (sr_num_rows r = 0 \<longrightarrow>
      Sqlite3ResultSet_SeekRow r row = r\<lparr>sr_current_row := row\<rparr>
      \<and> Sqlite3ResultSet_Eof (Sqlite3ResultSet_SeekRow r row))
   \<and> (mr_res s = Some res \<and> mr_num_rows s \<noteq> 0 \<and> mr_num_rows s \<le> ucast row \<longrightarrow>
      mr_current_row (MariaResultSet_SeekRow s row) = mr_num_rows s - 1
      \<and> unat (MariaResultSet_CurrentRow (MariaResultSet_SeekRow s row))
          = unat (mr_num_rows s) - 1)
   \<and> (mr_num_rows s = 0 \<longrightarrow> MariaResultSet_SeekRow s row = s)
   \<and> (sr_results r = Some (names @ concat rows) \<and> length names = n
        \<and> (\<forall>x \<in> set rows. length x = n) \<and> sr_num_cols r = int n
        \<and> sr_num_rows r = of_nat (length rows) \<and> length rows < 2 ^ 31
        \<and> (length rows + 1) * n < 2 ^ 31 \<longrightarrow>
      (\<forall>i < length rows.
          \<not> Sqlite3ResultSet_Eof ((Sqlite3ResultSet_NextRow ^^ i) (Sqlite3ResultSet_SeekRow r 0))
          \<and> Sqlite3ResultSet_CurrentRow
              ((Sqlite3ResultSet_NextRow ^^ i) (Sqlite3ResultSet_SeekRow r 0)) = of_nat i
          \<and> (\<forall>c < n. Sqlite3ResultSet_FieldValue
                         ((Sqlite3ResultSet_NextRow ^^ i) (Sqlite3ResultSet_SeekRow r 0)) (int c)
                       = rows ! i ! c))
      \<and> Sqlite3ResultSet_Eof
          ((Sqlite3ResultSet_NextRow ^^ length rows) (Sqlite3ResultSet_SeekRow r 0)))
   \<and> (mr_res s = Some res \<and> mr_num_rows s = of_nat (length (res_rows res))
        \<and> length (res_rows res) < 2 ^ 64 \<longrightarrow>
      (\<forall>i < length (res_rows res).
          \<not> MariaResultSet_Eof ((MariaResultSet_NextRow ^^ i) (MariaResultSet_SeekRow s 0))
          \<and> mr_row ((MariaResultSet_NextRow ^^ i) (MariaResultSet_SeekRow s 0))
              = Some (res_rows res ! i))
      \<and> MariaResultSet_Eof
          ((MariaResultSet_NextRow ^^ length (res_rows res)) (MariaResultSet_SeekRow s 0)))"
proof (intro conjI)
  show "sr_num_rows r \<noteq> 0 \<and> sr_num_rows r \<le> row \<longrightarrow>
      Sqlite3ResultSet_CurrentRow (Sqlite3ResultSet_SeekRow r row) = sr_num_rows r - 1"
    by (simp add: Sqlite3ResultSet_SeekRow_clamps Sqlite3ResultSet_CurrentRow_def)
  show "sr_num_rows r = 0 \<longrightarrow>
      Sqlite3ResultSet_SeekRow r row = r\<lparr>sr_current_row := row\<rparr>
      \<and> Sqlite3ResultSet_Eof (Sqlite3ResultSet_SeekRow r row)"
    by (simp add: Sqlite3ResultSet_SeekRow_empty Sqlite3ResultSet_Eof_def)
  show "mr_res s = Some res \<and> mr_num_rows s \<noteq> 0 \<and> mr_num_rows s \<le> ucast row \<longrightarrow>
      mr_current_row (MariaResultSet_SeekRow s row) = mr_num_rows s - 1
      \<and> unat (MariaResultSet_CurrentRow (MariaResultSet_SeekRow s row))
          = unat (mr_num_rows s) - 1"
    using MariaResultSet_SeekRow_clamps [of s res row]
      MariaResultSet_SeekRow_clamps_unat [of s res row] by blast
  show "mr_num_rows s = 0 \<longrightarrow> MariaResultSet_SeekRow s row = s"
    by (simp add: MariaResultSet_SeekRow_empty)
  show "sr_results r = Some (names @ concat rows) \<and> length names = n
        \<and> (\<forall>x \<in> set rows. length x = n) \<and> sr_num_cols r = int n
        \<and> sr_num_rows r = of_nat (length rows) \<and> length rows < 2 ^ 31
        \<and> (length rows + 1) * n < 2 ^ 31 \<longrightarrow>
      (\<forall>i < length rows.
          \<not> Sqlite3ResultSet_Eof ((Sqlite3ResultSet_NextRow ^^ i) (Sqlite3ResultSet_SeekRow r 0))
          \<and> Sqlite3ResultSet_CurrentRow
              ((Sqlite3ResultSet_NextRow ^^ i) (Sqlite3ResultSet_SeekRow r 0)) = of_nat i
          \<and> (\<forall>c < n. Sqlite3ResultSet_FieldValue
                         ((Sqlite3ResultSet_NextRow ^^ i) (Sqlite3ResultSet_SeekRow r 0)) (int c)
                       = rows ! i ! c))
      \<and> Sqlite3ResultSet_Eof
          ((Sqlite3ResultSet_NextRow ^^ length rows) (Sqlite3ResultSet_SeekRow r 0))"
    using Sqlite3ResultSet_visit [of r names rows n] by blast
  show "mr_res s = Some res \<and> mr_num_rows s = of_nat (length (res_rows res))
        \<and> length (res_rows res) < 2 ^ 64 \<longrightarrow>
      (\<forall>i < length (res_rows res).
          \<not> MariaResultSet_Eof ((MariaResultSet_NextRow ^^ i) (MariaResultSet_SeekRow s 0))
          \<and> mr_row ((MariaResultSet_NextRow ^^ i) (MariaResultSet_SeekRow s 0))
              = Some (res_rows res ! i))
      \<and> MariaResultSet_Eof
          ((MariaResultSet_NextRow ^^ length (res_rows res)) (MariaResultSet_SeekRow s 0))"
    using MariaResultSet_visit [of s res] MariaResultSet_after_last [of s res] by blast
qed

text \<open>
  The claim as written fails on the embedded backend: on an empty result set
  \<open>SeekRow(5)\<close> is not a no-op, the current row becomes 5.
\<close>

theorem Sqlite3ResultSet_SeekRow_empty_counterexample:
  "Sqlite3ResultSet_NumRows (Sqlite3ResultSet_ctor (Some []) 0 0) = 0
   \<and> Sqlite3ResultSet_CurrentRow (Sqlite3ResultSet_ctor (Some []) 0 0) = 0
   \<and> Sqlite3ResultSet_CurrentRow
       (Sqlite3ResultSet_SeekRow (Sqlite3ResultSet_ctor (Some []) 0 0) 5) = 5"
  by (simp add: Sqlite3ResultSet_ctor_def Sqlite3ResultSet_SeekRow_def
        Sqlite3ResultSet_CurrentRow_def Sqlite3ResultSet_NumRows_def)

theorem SeekRow_clamps_and_rows_in_order_witness:
  "sr_num_rows example_Sqlite3ResultSet \<noteq> 0 \<and> sr_num_rows example_Sqlite3ResultSet \<le> 7
   \<and> Sqlite3ResultSet_CurrentRow (Sqlite3ResultSet_SeekRow example_Sqlite3ResultSet 7) = 1
   \<and> mr_res example_MariaResultSet = Some (example_res\<lparr>res_pos := Suc 0\<rparr>)
   \<and> mr_num_rows example_MariaResultSet \<noteq> 0
   \<and> mr_num_rows example_MariaResultSet \<le> ucast (7 :: 32 word)
   \<and> mr_current_row (MariaResultSet_SeekRow example_MariaResultSet 7) = 1
   \<and> sr_results example_Sqlite3ResultSet = Some (example_table_names @ concat example_table_rows)
   \<and> length example_table_names = 2 \<and> list_all (\<lambda>x. length x = 2) example_table_rows
   \<and> sr_num_cols example_Sqlite3ResultSet = 2
   \<and> sr_num_rows example_Sqlite3ResultSet = of_nat (length example_table_rows)
   \<and> length example_table_rows < 2 ^ 31 \<and> (length example_table_rows + 1) * 2 < (2 :: nat) ^ 31
   \<and> Sqlite3ResultSet_FieldValue
        (Sqlite3ResultSet_NextRow (Sqlite3ResultSet_SeekRow example_Sqlite3ResultSet 0)) 1
       = Some ''Bob''
   \<and> Sqlite3ResultSet_Eof
        (Sqlite3ResultSet_NextRow
           (Sqlite3ResultSet_NextRow (Sqlite3ResultSet_SeekRow example_Sqlite3ResultSet 0)))
   \<and> mr_num_rows example_MariaResultSet = of_nat (length (res_rows example_res))
   \<and> mr_row (MariaResultSet_NextRow (MariaResultSet_SeekRow example_MariaResultSet 0))
       = Some [Some ''2'', Some ''Bob'']
   \<and> MariaResultSet_Eof
        (MariaResultSet_NextRow
           (MariaResultSet_NextRow (MariaResultSet_SeekRow example_MariaResultSet 0)))"
proof -
  have hs: "sr_num_rows example_Sqlite3ResultSet = 2"
    "sr_results example_Sqlite3ResultSet = Some (example_table_names @ concat example_table_rows)"
    "sr_num_cols example_Sqlite3ResultSet = 2"
    "length example_table_names = 2" "length example_table_rows = 2"
    "\<forall>x \<in> set example_table_rows. length x = 2"
    "example_table_rows ! Suc 0 ! Suc 0 = Some ''Bob''"
    by (simp_all add: example_Sqlite3ResultSet_def Sqlite3ResultSet_ctor_def
          example_table_names_def example_table_rows_def)
  have hm: "mr_res example_MariaResultSet = Some (example_res\<lparr>res_pos := Suc 0\<rparr>)"
    "mr_num_rows example_MariaResultSet = 2"
    "length (res_rows (example_res\<lparr>res_pos := Suc 0\<rparr>)) = 2"
    "res_rows (example_res\<lparr>res_pos := Suc 0\<rparr>) ! Suc 0 = [Some ''2'', Some ''Bob'']"
    "length (res_rows example_res) = 2"
    by (simp_all add: example_MariaResultSet_def MariaResultSet_ctor_def mysql_num_rows_def
          mysql_fetch_row_def example_res_def MariaResultSet_default_def)
  note inst = SeekRow_clamps_and_rows_in_order
    [where r = example_Sqlite3ResultSet and row = 7 and s = example_MariaResultSet
       and res = "example_res\<lparr>res_pos := Suc 0\<rparr>" and names = example_table_names
       and rows = example_table_rows and n = 2]
  have seek: "Sqlite3ResultSet_CurrentRow (Sqlite3ResultSet_SeekRow example_Sqlite3ResultSet 7) = 1"
    "mr_current_row (MariaResultSet_SeekRow example_MariaResultSet 7) = 1"
    using inst hs(1) hm(1,2) by simp_all
  have sq: "\<forall>i < 2.
          \<not> Sqlite3ResultSet_Eof
              ((Sqlite3ResultSet_NextRow ^^ i) (Sqlite3ResultSet_SeekRow example_Sqlite3ResultSet 0))
          \<and> Sqlite3ResultSet_CurrentRow
              ((Sqlite3ResultSet_NextRow ^^ i) (Sqlite3ResultSet_SeekRow example_Sqlite3ResultSet 0))
              = of_nat i
          \<and> (\<forall>c < 2. Sqlite3ResultSet_FieldValue
                         ((Sqlite3ResultSet_NextRow ^^ i)
                            (Sqlite3ResultSet_SeekRow example_Sqlite3ResultSet 0)) (int c)
                       = example_table_rows ! i ! c)"
    "Sqlite3ResultSet_Eof
          ((Sqlite3ResultSet_NextRow ^^ 2) (Sqlite3ResultSet_SeekRow example_Sqlite3ResultSet 0))"
    using inst hs by simp_all
  have mq: "\<forall>i < 2.
          \<not> MariaResultSet_Eof
              ((MariaResultSet_NextRow ^^ i) (MariaResultSet_SeekRow example_MariaResultSet 0))
          \<and> mr_row ((MariaResultSet_NextRow ^^ i) (MariaResultSet_SeekRow example_MariaResultSet 0))
              = Some (res_rows (example_res\<lparr>res_pos := Suc 0\<rparr>) ! i)"
    "MariaResultSet_Eof
          ((MariaResultSet_NextRow ^^ 2) (MariaResultSet_SeekRow example_MariaResultSet 0))"
    using inst hm by simp_all
  have "\<forall>c < 2. Sqlite3ResultSet_FieldValue
                  ((Sqlite3ResultSet_NextRow ^^ Suc 0)
                     (Sqlite3ResultSet_SeekRow example_Sqlite3ResultSet 0)) (int c)
                = example_table_rows ! Suc 0 ! c"
    using sq(1) [rule_format, of "Suc 0"] by simp
  then have "Sqlite3ResultSet_FieldValue
        (Sqlite3ResultSet_NextRow (Sqlite3ResultSet_SeekRow example_Sqlite3ResultSet 0)) 1
       = Some ''Bob''"
    using hs(7) by (auto dest: spec [of _ "Suc 0"])
  note bob = this
  have row2: "mr_row (MariaResultSet_NextRow (MariaResultSet_SeekRow example_MariaResultSet 0))
       = Some [Some ''2'', Some ''Bob'']"
    using mq(1) [rule_format, of "Suc 0"] by (simp add: example_res_def)
  have ends: "Sqlite3ResultSet_Eof
        (Sqlite3ResultSet_NextRow
           (Sqlite3ResultSet_NextRow (Sqlite3ResultSet_SeekRow example_Sqlite3ResultSet 0)))"
    "MariaResultSet_Eof
        (MariaResultSet_NextRow
           (MariaResultSet_NextRow (MariaResultSet_SeekRow example_MariaResultSet 0)))"
    using sq(2) mq(2) by (simp_all add: numeral_2_eq_2)
  have basics: "sr_num_rows example_Sqlite3ResultSet \<noteq> 0"
    "sr_num_rows example_Sqlite3ResultSet \<le> 7"
    "mr_num_rows example_MariaResultSet \<noteq> 0"
    "mr_num_rows example_MariaResultSet \<le> ucast (7 :: 32 word)"
    "sr_num_rows example_Sqlite3ResultSet = of_nat (length example_table_rows)"
    "mr_num_rows example_MariaResultSet = of_nat (length (res_rows example_res))"
    "list_all (\<lambda>x. length x = 2) example_table_rows"
    "length example_table_rows < 2 ^ 31"
    "(length example_table_rows + 1) * 2 < (2 :: nat) ^ 31"
    by (simp_all add: hs(1,5) hm(2,5) example_table_rows_def)
  show ?thesis
    by (intro conjI) (fact basics seek hs hm bob row2 ends)+
qed

section \<open>TableExists\<close>

lemma format_expand_plain:
  "c \<noteq> CHR ''%'' \<Longrightarrow> format_expand (c # xs) args = c # format_expand xs args"
  by (cases xs) simp_all

lemma format_expand_prefix:
  "CHR ''%'' \<notin> set p \<Longrightarrow> format_expand (p @ rest) args = p @ format_expand rest args"
  by (induction p) (auto simp: format_expand_plain)

lemma format_expand_one_string:
  assumes "CHR ''%'' \<notin> set p" and "CHR ''%'' \<notin> set q"
  shows "format_expand (p @ ''%s'' @ q) [a] = p @ c_str a @ q"
proof -
  have "format_expand q [] = q"
    using format_expand_prefix [OF assms(2), of "[]" "[]"] by simp
  then show ?thesis
    by (simp add: format_expand_prefix [OF assms(1)])
qed

lemma c_str_spliced:
  assumes "NUL \<notin> set p" and "NUL \<notin> set q"
  shows "c_str (p @ c_str a @ q) = p @ c_str a @ q"
  by (rule c_str_NUL_free) (use assms c_str_no_NUL in auto)

lemma Sqlite3Db_TableExists_sql_text:
  "c_str (Sqlite3Db_TableExists_sql t)
     = take 255 (''SELECT count(*) FROM sqlite_master WHERE type='table' AND name=''
                 @ [CHR 0x27] @ c_str t @ [CHR 0x27])"
proof -
  let ?p = "''SELECT count(*) FROM sqlite_master WHERE type='table' AND name='' @ [CHR 0x27]"
  have "format_expand (?p @ ''%s'' @ [CHR 0x27]) [t] = ?p @ c_str t @ [CHR 0x27]"
    by (rule format_expand_one_string) simp_all
  moreover have "c_str (?p @ c_str t @ [CHR 0x27]) = ?p @ c_str t @ [CHR 0x27]"
    by (rule c_str_spliced) (simp_all add: NUL_def)
  ultimately show ?thesis
    by (simp add: Sqlite3Db_TableExists_sql_def vsnprintf_c_str)
qed

lemma MariaDb_TableExists_sql_text:
  "c_str (MariaDb_TableExists_sql t)
     = take 255 (''SELECT COUNT(*) FROM information_schema.tables ''
                 @ ''WHERE table_schema = DATABASE() AND table_name = ''
                 @ [CHR 0x27] @ c_str t @ [CHR 0x27])"
proof -
  let ?p = "''SELECT COUNT(*) FROM information_schema.tables ''
            @ ''WHERE table_schema = DATABASE() AND table_name = '' @ [CHR 0x27]"
  have "format_expand (?p @ ''%s'' @ [CHR 0x27]) [t] = ?p @ c_str t @ [CHR 0x27]"
    by (rule format_expand_one_string) simp_all
  moreover have "c_str (?p @ c_str t @ [CHR 0x27]) = ?p @ c_str t @ [CHR 0x27]"
    by (rule c_str_spliced) (simp_all add: NUL_def)
  ultimately show ?thesis
    by (simp add: MariaDb_TableExists_sql_def vsnprintf_c_str)
qed

lemma Sqlite3Db_TableExists_result:
  assumes "sd_db d = Some db"
  shows "Sqlite3Db_TableExists d (Some t)
           = (let q = fst (Sqlite3Db_ExecQuery d (Some (Sqlite3Db_TableExists_sql t)) None)
              in \<not> Sqlite3Query_Eof q \<and> 1 \<le> Sqlite3Query_NumFields q
                 \<and> 0 < sint (Sqlite3Query_GetInt q 0 0))"
  using assms
  by (auto simp: Sqlite3Db_TableExists_def Sqlite3Db_ExecScalar_def Let_def split: prod.splits)

lemma MariaDb_TableExists_result:
  assumes "md_conn d = Some conn"
  shows "MariaDb_TableExists strtol d (Some t)
           = (let q = fst (MariaDb_ExecQuery d (Some (MariaDb_TableExists_sql t)) None)
              in \<not> MariaQuery_Eof q \<and> 1 \<le> MariaQuery_NumFields q
                 \<and> 0 < sint (MariaQuery_GetInt strtol q 0 0))"
  using assms
  by (auto simp: MariaDb_TableExists_def MariaDb_ExecScalar_def Let_def split: prod.splits)

lemma Sqlite3Db_ExecQuery_asks_engine:
  assumes "sd_db d = Some db"
  shows "fst (Sqlite3Db_ExecQuery d (Some sql) None)
           = (case prepare_v2 db (c_str sql) of
                (rc, Some stmt) \<Rightarrow>
                  if rc = SQLITE_OK
                       \<and> (fst (sqlite3_step stmt) = SQLITE_ROW \<or> fst (sqlite3_step stmt) = SQLITE_DONE)
                  then Sqlite3Query_ctor (Some db) (Some (snd (sqlite3_step stmt)))
                         (fst (sqlite3_step stmt) = SQLITE_DONE)
                  else Sqlite3Query_default
              | (rc, None) \<Rightarrow> Sqlite3Query_default)"
  using assms
  by (auto simp: Sqlite3Db_ExecQuery_def Sqlite3Db_Compile_def report_def SQLITE_ROW_def
        SQLITE_DONE_def split: prod.splits option.splits)

lemma MariaDb_ExecQuery_asks_engine:
  assumes "md_conn d = Some conn"
  shows "fst (MariaDb_ExecQuery d (Some sql) None)
           = (if reply_status (mysql_query conn (c_str sql)) \<noteq> 0 then MariaQuery_default
              else case reply_result (mysql_query conn (c_str sql)) of
                     None \<Rightarrow> MariaQuery_default
                   | Some res \<Rightarrow> MariaQuery_ctor (Some res) (mysql_num_rows res = 0))"
  using assms
  by (simp add: MariaDb_ExecQuery_def Let_def split: option.splits)

text \<open>
  C6. \<open>TableExists\<close> prints the table name into the count query of the engine's catalog
  with \<open>snprintf\<close> and \<open>%s\<close>, so the name reaches the engine between single quotes
  byte for byte, neither escaped nor bound. For the name \<open>x' OR '1'='1\<close> the text both
  backends send ends the SQL literal at the name's first quote and carries the rest of
  the name as SQL; it is not the text with the name escaped. On an open connection to
  the example database, whose only table is \<open>emp\<close>, \<open>TableExists\<close> answers true for
  \<open>emp\<close>, false for \<open>nosuch\<close>, and true for \<open>x' OR '1'='1\<close>, which names no table,
  while the count query for the escaped name counts 0.
\<close>

theorem TableExists_runs_injected_text:
  "c_str (Sqlite3Db_TableExists_sql ''x' OR '1'='1'')
     = ''SELECT count(*) FROM sqlite_master WHERE type='table' AND name='x' OR '1'='1'' @ [CHR 0x27]
   \<and> c_str (MariaDb_TableExists_sql ''x' OR '1'='1'')
     = ''SELECT COUNT(*) FROM information_schema.tables ''
       @ ''WHERE table_schema = DATABASE() AND table_name = 'x' OR '1'='1'' @ [CHR 0x27]
   \<and> c_str (Sqlite3Db_TableExists_sql ''x' OR '1'='1'')
     \<noteq> ''SELECT count(*) FROM sqlite_master WHERE type='table' AND name=''
        @ [CHR 0x27] @ spec_escape_sql_literal ''x' OR '1'='1'' @ [CHR 0x27]
   \<and> c_str (MariaDb_TableExists_sql ''x' OR '1'='1'')
     \<noteq> ''SELECT COUNT(*) FROM information_schema.tables ''
        @ ''WHERE table_schema = DATABASE() AND table_name = ''
        @ [CHR 0x27] @ spec_escape_sql_literal ''x' OR '1'='1'' @ [CHR 0x27]
   \<and> Sqlite3Db_IsOpen example_catalog_Sqlite3Db
   \<and> Sqlite3Db_TableExists example_catalog_Sqlite3Db (Some ''emp'')
   \<and> \<not> Sqlite3Db_TableExists example_catalog_Sqlite3Db (Some ''nosuch'')
   \<and> Sqlite3Db_TableExists example_catalog_Sqlite3Db (Some ''x' OR '1'='1'')
   \<and> sint (fst (Sqlite3Db_ExecScalar example_catalog_Sqlite3Db
                    (Some (''SELECT count(*) FROM sqlite_master WHERE type='table' AND name=''
                           @ [CHR 0x27] @ spec_escape_sql_literal ''x' OR '1'='1''
                           @ [CHR 0x27]))
                    0 None)) = 0"
proof -
  have name: "c_str ''x' OR '1'='1'' = ''x' OR '1'='1''" "c_str ''emp'' = ''emp''"
    "c_str ''nosuch'' = ''nosuch''"
    by (simp_all add: c_str_def NUL_def)
  have sent: "c_str (Sqlite3Db_TableExists_sql ''x' OR '1'='1'')
     = ''SELECT count(*) FROM sqlite_master WHERE type='table' AND name='x' OR '1'='1'' @ [CHR 0x27]"
    "c_str (Sqlite3Db_TableExists_sql ''emp'')
     = ''SELECT count(*) FROM sqlite_master WHERE type='table' AND name='emp'' @ [CHR 0x27]"
    "c_str (Sqlite3Db_TableExists_sql ''nosuch'')
     = ''SELECT count(*) FROM sqlite_master WHERE type='table' AND name='nosuch'' @ [CHR 0x27]"
    "c_str (MariaDb_TableExists_sql ''x' OR '1'='1'')
     = ''SELECT COUNT(*) FROM information_schema.tables ''
       @ ''WHERE table_schema = DATABASE() AND table_name = 'x' OR '1'='1'' @ [CHR 0x27]"
    by (simp_all add: Sqlite3Db_TableExists_sql_text MariaDb_TableExists_sql_text name)
  have escaped: "c_str (Sqlite3Db_TableExists_sql ''x' OR '1'='1'')
     \<noteq> ''SELECT count(*) FROM sqlite_master WHERE type='table' AND name=''
        @ [CHR 0x27] @ spec_escape_sql_literal ''x' OR '1'='1'' @ [CHR 0x27]"
    "c_str (MariaDb_TableExists_sql ''x' OR '1'='1'')
     \<noteq> ''SELECT COUNT(*) FROM information_schema.tables ''
        @ ''WHERE table_schema = DATABASE() AND table_name = ''
        @ [CHR 0x27] @ spec_escape_sql_literal ''x' OR '1'='1'' @ [CHR 0x27]"
    by (simp_all add: sent spec_escape_sql_literal_def)
  have is_open: "sd_db example_catalog_Sqlite3Db = Some example_catalog_sqlite3"
    by (simp add: example_catalog_Sqlite3Db_def)
  have answers: "Sqlite3Db_TableExists example_catalog_Sqlite3Db (Some ''emp'')"
    "\<not> Sqlite3Db_TableExists example_catalog_Sqlite3Db (Some ''nosuch'')"
    "Sqlite3Db_TableExists example_catalog_Sqlite3Db (Some ''x' OR '1'='1'')"
    by code_simp+
  have zero: "sint (fst (Sqlite3Db_ExecScalar example_catalog_Sqlite3Db
                    (Some (''SELECT count(*) FROM sqlite_master WHERE type='table' AND name=''
                           @ [CHR 0x27] @ spec_escape_sql_literal ''x' OR '1'='1''
                           @ [CHR 0x27]))
                    0 None)) = 0"
    by code_simp
  have "Sqlite3Db_IsOpen example_catalog_Sqlite3Db"
    by (simp add: Sqlite3Db_IsOpen_def is_open)
  then show ?thesis
    using sent(1,4) escaped answers zero by (intro conjI)
qed
end
